theory Spec2Isabelle
  imports Complex_Main "HOL-Library.AList"
begin

section \<open>The Godot environment driver: data model\<close>

text \<open>
  The development embeds \<^verbatim>\<open>godot_interface/GodotEnvironment.py\<close>: the two module-level
  receive helpers \<^verbatim>\<open>recvall\<close> and \<^verbatim>\<open>recv_msg\<close>, and the methods of class
  \<^verbatim>\<open>GodotEnvironment\<close>. Bytes are characters, a Python \<^verbatim>\<open>str\<close> is a string with one
  character per code point (code points above 255 are outside the model; every key the
  source uses is an ASCII literal).
\<close>

type_synonym bytes = "char list"

text \<open>
  The exceptions a call can end with. The first group are the Python exceptions the
  source's operations raise. The last four are the error names of the design document's
  taxonomy; they are listed so that statements about them can be written down, and no
  function below ever produces one of them.
\<close>

datatype exn =
    KeyError | IndexError | TypeError | ZeroDivisionError | OverflowError | AttributeError
  | OSError | StructError | UnicodeDecodeError | JSONDecodeError | ValueError | SyntaxError
  | IncompleteHeader | TruncatedBody | MalformedPayload | ProtocolViolation

text \<open>A Python call either returns a value or raises.\<close>

datatype 'a outcome = Returns 'a | Raises exn

subsection \<open>The byte stream of the connected socket\<close>

text \<open>
  The connected socket is the list of chunks the peer's data arrives in, in order; after
  the last chunk the peer has closed the stream. \<^verbatim>\<open>sock.recv(bufsize)\<close> hands out the next
  chunk, or its first \<^verbatim>\<open>bufsize\<close> bytes when the chunk is longer, and \<^verbatim>\<open>b''\<close> once the
  stream is closed and drained.
\<close>

fun recv :: "bytes list \<Rightarrow> nat \<Rightarrow> bytes \<times> bytes list" where
  "recv [] bufsize = ([], [])"
| "recv (c # cs) bufsize =
     (if length c \<le> bufsize then (c, cs) else (take bufsize c, drop bufsize c # cs))"

text \<open>
  \<^verbatim>\<open>recvall(sock, n)\<close>: the loop \<^verbatim>\<open>while len(data) < n\<close>, with \<^verbatim>\<open>data\<close> the bytes read
  so far. An empty packet makes it return \<^verbatim>\<open>None\<close>.
\<close>

function recvall_loop :: "bytes list \<Rightarrow> nat \<Rightarrow> bytes \<Rightarrow> bytes option outcome \<times> bytes list" where
  "recvall_loop sock n data =
     (if length data < n then
        (case recv sock (n - length data) of (packet, sock') \<Rightarrow>
           if packet = [] then (Returns None, sock')
           else recvall_loop sock' n (data @ packet))
      else (Returns (Some data), sock))"
  by pat_completeness auto
termination
  by (relation "measure (\<lambda>(sock, n, data). n - length data)") (auto simp: neq_Nil_conv)

declare recvall_loop.simps [simp del]

definition recvall :: "bytes list \<Rightarrow> nat \<Rightarrow> bytes option outcome \<times> bytes list" where
  "recvall sock n = recvall_loop sock n []"

text \<open>\<^verbatim>\<open>struct.unpack('>I', raw)[0]\<close>: four bytes, most significant first.\<close>

definition be32 :: "bytes \<Rightarrow> nat" where
  "be32 raw = foldl (\<lambda>acc b. acc * 256 + of_char b) 0 raw"

definition unpack_be32 :: "bytes \<Rightarrow> nat outcome" where
  "unpack_be32 raw = (if length raw = 4 then Returns (be32 raw) else Raises StructError)"

text \<open>
  \<^verbatim>\<open>recv_msg(sock)\<close>: \<^verbatim>\<open>if not raw_msglen: return None\<close> covers both \<^verbatim>\<open>None\<close> and an empty
  byte array.
\<close>

definition recv_msg :: "bytes list \<Rightarrow> bytes option outcome \<times> bytes list" where
  "recv_msg sock =
     (case recvall sock 4 of
        (Raises e, sock') \<Rightarrow> (Raises e, sock')
      | (Returns None, sock') \<Rightarrow> (Returns None, sock')
      | (Returns (Some raw_msglen), sock') \<Rightarrow>
          if raw_msglen = [] then (Returns None, sock')
          else (case unpack_be32 raw_msglen of
                  Raises e \<Rightarrow> (Raises e, sock')
                | Returns msglen \<Rightarrow> recvall sock' msglen))"

subsection \<open>Python values\<close>

text \<open>
  Two kinds of values occur. What \<^verbatim>\<open>json.loads\<close> produces from a response is a
  \<open>json\<close> value. What the caller hands to \<^verbatim>\<open>step\<close>, and what a request dictionary
  holds, is a \<open>pyval\<close>: the same shapes, and in addition a NumPy integer scalar
  (\<^verbatim>\<open>np.integer\<close>). Dictionaries keep their insertion order. The type \<open>'f\<close> is Python's
  \<^verbatim>\<open>float\<close>; its arithmetic belongs to the interpreter and is a parameter below.
\<close>

datatype 'f json =
    JNull | JBool bool | JInt int | JFloat 'f | JStr string
  | JList "'f json list" | JDict "(string \<times> 'f json) list"

datatype 'f pyval =
    PNone | PBool bool | PInt int | PNpInt int | PFloat 'f | PStr string
  | PList "'f pyval list" | PDict "(string \<times> 'f pyval) list"

text \<open>
  The library functions the source calls and that are not part of the repository:
  NumPy's generator, float arithmetic and printing, \<^verbatim>\<open>bytes.decode\<close>, \<^verbatim>\<open>json.loads\<close> and
  \<^verbatim>\<open>ast.literal_eval\<close>. Every function of the model takes them as the parameter \<open>L\<close>.
  \<open>RandomState\<close> is the generator \<^verbatim>\<open>np.random.RandomState(seed)\<close> creates for a seed it
  accepts. \<open>float_of_int\<close> is \<^verbatim>\<open>float(i)\<close> for an integer in the float range, \<open>int_truediv\<close>
  is the correctly rounded quotient \<^verbatim>\<open>i / j\<close> of two integers when it is in the float range,
  and \<open>float_div\<close> is the quotient \<^verbatim>\<open>x / y\<close> of two floats with \<open>y\<close> not zero. When these
  functions are used, and what is raised otherwise, is written out in the model below.
\<close>

record ('g, 'f) pylib =
  RandomState :: "int \<Rightarrow> 'g"
  randint :: "'g \<Rightarrow> int \<Rightarrow> int \<Rightarrow> int \<times> 'g"
  float_of_int :: "int \<Rightarrow> 'f"
  int_truediv :: "int \<Rightarrow> int \<Rightarrow> 'f"
  float_div :: "'f \<Rightarrow> 'f \<Rightarrow> 'f"
  float_is_zero :: "'f \<Rightarrow> bool"
  float_repr :: "'f \<Rightarrow> string"
  bytes_decode :: "bytes \<Rightarrow> exn + string"
  json_loads :: "string \<Rightarrow> exn + 'f json"
  literal_eval :: "string \<Rightarrow> exn + 'f json"

subsection \<open>Indexing, iteration, truth and division on response values\<close>

text \<open>\<^verbatim>\<open>obj[key]\<close> with a string key: only a dictionary accepts it.\<close>

fun getitem :: "'f json \<Rightarrow> string \<Rightarrow> 'f json outcome" where
  "getitem (JDict kvs) key =
     (case map_of kvs key of None \<Rightarrow> Raises KeyError | Some v \<Rightarrow> Returns v)"
| "getitem _ key = Raises TypeError"

text \<open>\<^verbatim>\<open>obj[0]\<close>.\<close>

fun getitem0 :: "'f json \<Rightarrow> 'f json outcome" where
  "getitem0 (JList xs) = (case xs of [] \<Rightarrow> Raises IndexError | x # _ \<Rightarrow> Returns x)"
| "getitem0 (JStr s) = (case s of [] \<Rightarrow> Raises IndexError | c # _ \<Rightarrow> Returns (JStr [c]))"
| "getitem0 (JDict kvs) = Raises KeyError"
| "getitem0 _ = Raises TypeError"

text \<open>
  The items a \<^verbatim>\<open>for\<close> loop (or \<^verbatim>\<open>enumerate\<close>) visits: the elements of a list, the
  characters of a string, the keys of a dictionary.
\<close>

fun iter_items :: "'f json \<Rightarrow> 'f json list outcome" where
  "iter_items (JList xs) = Returns xs"
| "iter_items (JStr s) = Returns (map (\<lambda>c. JStr [c]) s)"
| "iter_items (JDict kvs) = Returns (map (\<lambda>kv. JStr (fst kv)) kvs)"
| "iter_items _ = Raises TypeError"

text \<open>Python's truth value of an object, as \<^verbatim>\<open>if obj:\<close> tests it.\<close>

fun truthy :: "('g, 'f) pylib \<Rightarrow> 'f json \<Rightarrow> bool" where
  "truthy L JNull = False"
| "truthy L (JBool b) = b"
| "truthy L (JInt i) = (i \<noteq> 0)"
| "truthy L (JFloat f) = (\<not> float_is_zero L f)"
| "truthy L (JStr s) = (s \<noteq> [])"
| "truthy L (JList xs) = (xs \<noteq> [])"
| "truthy L (JDict kvs) = (kvs \<noteq> [])"

text \<open>The numbers: \<^verbatim>\<open>int\<close>, \<^verbatim>\<open>float\<close>, and \<^verbatim>\<open>bool\<close> (a subclass of \<^verbatim>\<open>int\<close>).\<close>

fun as_number :: "'f json \<Rightarrow> (int + 'f) option" where
  "as_number (JInt i) = Some (Inl i)"
| "as_number (JBool b) = Some (Inl (if b then 1 else 0))"
| "as_number (JFloat f) = Some (Inr f)"
| "as_number _ = None"

fun number_is_zero :: "('g, 'f) pylib \<Rightarrow> int + 'f \<Rightarrow> bool" where
  "number_is_zero L (Inl i) = (i = 0)"
| "number_is_zero L (Inr f) = float_is_zero L f"

text \<open>
  A Python float is an IEEE 754 double. An integer converts to a float (rounding to the
  nearest) exactly when its absolute value is below \<open>2^1024 - 2^970\<close>, the midpoint between
  the largest double and \<open>2^1024\<close>; from there on \<^verbatim>\<open>float(i)\<close> raises \<^verbatim>\<open>OverflowError\<close>.
\<close>

definition float_int_bound :: int where
  "float_int_bound = 2 ^ 1024 - 2 ^ 970"

fun to_float :: "('g, 'f) pylib \<Rightarrow> int + 'f \<Rightarrow> 'f outcome" where
  "to_float L (Inl i) =
     (if \<bar>i\<bar> < float_int_bound then Returns (float_of_int L i) else Raises OverflowError)"
| "to_float L (Inr f) = Returns f"

text \<open>
  \<^verbatim>\<open>x / y\<close> on two numbers, as CPython computes it. Two integers: a zero divisor raises
  \<^verbatim>\<open>ZeroDivisionError\<close>; otherwise the quotient is rounded to a float, and
  \<^verbatim>\<open>OverflowError\<close> is raised when it is beyond the float range. With a float among the
  operands, both are converted to floats first, the left one before the right one (an
  integer beyond the float range raises \<^verbatim>\<open>OverflowError\<close> here, also when the divisor is
  zero); then a zero divisor raises \<^verbatim>\<open>ZeroDivisionError\<close>, and the division of two floats
  raises nothing else. A converted integer is the float zero exactly when it is 0, which
  is how \<open>number_is_zero\<close> tests it.
\<close>

fun truediv :: "('g, 'f) pylib \<Rightarrow> int + 'f \<Rightarrow> int + 'f \<Rightarrow> 'f outcome" where
  "truediv L (Inl i) (Inl j) =
     (if j = 0 then Raises ZeroDivisionError
      else if \<bar>i\<bar> < float_int_bound * \<bar>j\<bar> then Returns (int_truediv L i j)
      else Raises OverflowError)"
| "truediv L (Inl i) (Inr g) =
     (case to_float L (Inl i) of
        Raises e \<Rightarrow> Raises e
      | Returns a \<Rightarrow>
          if float_is_zero L g then Raises ZeroDivisionError else Returns (float_div L a g))"
| "truediv L (Inr f) y =
     (case to_float L y of
        Raises e \<Rightarrow> Raises e
      | Returns b \<Rightarrow>
          if number_is_zero L y then Raises ZeroDivisionError else Returns (float_div L f b))"

text \<open>
  \<^verbatim>\<open>a / b\<close> (also \<^verbatim>\<open>a /= b\<close>) on two objects: true division. Operands that are not numbers
  raise \<^verbatim>\<open>TypeError\<close>; the quotient of two numbers is a float.
\<close>

definition py_truediv :: "('g, 'f) pylib \<Rightarrow> 'f json \<Rightarrow> 'f json \<Rightarrow> 'f json outcome" where
  "py_truediv L a b =
     (case (as_number a, as_number b) of
        (Some x, Some y) \<Rightarrow>
          (case truediv L x y of Raises e \<Rightarrow> Raises e | Returns q \<Rightarrow> Returns (JFloat q))
      | _ \<Rightarrow> Raises TypeError)"

text \<open>Sequencing of operations that may raise.\<close>

fun obind :: "'a outcome \<Rightarrow> ('a \<Rightarrow> 'b outcome) \<Rightarrow> 'b outcome" where
  "obind (Returns a) f = f a"
| "obind (Raises e) f = Raises e"

text \<open>\<^verbatim>\<open>d[key] = v\<close> on a dictionary: an existing key keeps its place, a new one goes last.\<close>

fun setitem :: "'f json \<Rightarrow> string \<Rightarrow> 'f json \<Rightarrow> 'f json" where
  "setitem (JDict kvs) key v = JDict (AList.update key v kvs)"
| "setitem d key v = d"

subsection \<open>\<^verbatim>\<open>json.dumps\<close> and \<^verbatim>\<open>str.encode\<close>\<close>

text \<open>
  \<^verbatim>\<open>json.dumps\<close> with its default settings: \<^verbatim>\<open>", "\<close> between items, \<^verbatim>\<open>": "\<close> after a key,
  \<^verbatim>\<open>ensure_ascii\<close> escaping of strings, decimal integers. A NumPy integer anywhere in the
  value makes it raise \<^verbatim>\<open>TypeError\<close>.
\<close>

fun show_nat :: "nat \<Rightarrow> string" where
  "show_nat n =
     (if n < 10 then [''0123456789'' ! n]
      else show_nat (n div 10) @ [''0123456789'' ! (n mod 10)])"

declare show_nat.simps [simp del]

definition show_int :: "int \<Rightarrow> string" where
  "show_int i = (if i < 0 then CHR ''-'' # show_nat (nat (- i)) else show_nat (nat i))"

definition hex_digit :: "nat \<Rightarrow> char" where
  "hex_digit d = ''0123456789abcdef'' ! d"

definition escape_char :: "char \<Rightarrow> string" where
  "escape_char c =
     (if c = CHR 0x22 then [CHR 0x5C, CHR 0x22]
      else if c = CHR 0x5C then [CHR 0x5C, CHR 0x5C]
      else if c = CHR 0x08 then [CHR 0x5C, CHR ''b'']
      else if c = CHR 0x0C then [CHR 0x5C, CHR ''f'']
      else if c = CHR 0x0A then [CHR 0x5C, CHR ''n'']
      else if c = CHR 0x0D then [CHR 0x5C, CHR ''r'']
      else if c = CHR 0x09 then [CHR 0x5C, CHR ''t'']
      else if (32::nat) \<le> of_char c \<and> of_char c \<le> (126::nat) then [c]
      else [CHR 0x5C, CHR ''u'', CHR ''0'', CHR ''0'',
            hex_digit (of_char c div 16), hex_digit (of_char c mod 16)])"

definition encode_basestring_ascii :: "string \<Rightarrow> string" where
  "encode_basestring_ascii s = [CHR 0x22] @ concat (map escape_char s) @ [CHR 0x22]"

fun join :: "string \<Rightarrow> string list \<Rightarrow> string" where
  "join sep [] = []"
| "join sep [x] = x"
| "join sep (x # y # ys) = x @ sep @ join sep (y # ys)"

fun serializable :: "'f pyval \<Rightarrow> bool" where
  "serializable (PNpInt i) = False"
| "serializable (PList xs) = list_all serializable xs"
| "serializable (PDict kvs) = list_all (\<lambda>kv. serializable (snd kv)) kvs"
| "serializable _ = True"

fun dumps :: "('g, 'f) pylib \<Rightarrow> 'f pyval \<Rightarrow> string" where
  "dumps L PNone = ''null''"
| "dumps L (PBool b) = (if b then ''true'' else ''false'')"
| "dumps L (PInt i) = show_int i"
| "dumps L (PNpInt i) = []"
| "dumps L (PFloat f) = float_repr L f"
| "dumps L (PStr s) = encode_basestring_ascii s"
| "dumps L (PList xs) = ''['' @ join '', '' (map (dumps L) xs) @ '']''"
| "dumps L (PDict kvs) =
     ''{'' @ join '', ''
        (map (\<lambda>kv. encode_basestring_ascii (fst kv) @ '': '' @ dumps L (snd kv)) kvs) @ ''}''"

definition json_dumps :: "('g, 'f) pylib \<Rightarrow> 'f pyval \<Rightarrow> string outcome" where
  "json_dumps L v = (if serializable v then Returns (dumps L v) else Raises TypeError)"

text \<open>\<^verbatim>\<open>str.encode()\<close>: UTF-8, one byte below code point 128 and two bytes from there on.\<close>

definition str_encode :: "string \<Rightarrow> bytes" where
  "str_encode s =
     concat (map (\<lambda>c. if of_char c < (128::nat) then [c]
                      else [char_of (192 + of_char c div (64::nat)),
                            char_of (128 + of_char c mod (64::nat))]) s)"

subsection \<open>The session and the world it runs in\<close>

text \<open>
  What the program does to the outside is recorded as a trace of events. Sockets,
  connections and processes are handles, numbered as they are created.
\<close>

datatype event =
    SocketCreated nat
  | Bound nat string nat
  | Listening nat
  | Accepted nat nat
  | Sent nat bytes
  | SocketClosed nat
  | Launched nat string
  | Waited nat

text \<open>
  The world: the trace, the next free handle, the listening sockets that are already
  bound, the chunks the simulation will deliver on the connection, and the caller's
  action dictionaries, each at its address (the caller's list of actions is the list of
  these addresses, so that an update of a dictionary is visible to the caller).
\<close>

record 'f world =
  trace :: "event list"
  next_handle :: nat
  bound_sockets :: "nat list"
  inbox :: "bytes list"
  heap :: "nat \<Rightarrow> (string \<times> 'f pyval) list"

text \<open>
  The fields of \<^verbatim>\<open>self\<close> that the modelled methods read or write. The dictionary
  \<^verbatim>\<open>self.metrics\<close> always has exactly the two keys \<^verbatim>\<open>"regions"\<close> and \<^verbatim>\<open>"misc"\<close>, each a
  list, and is the two fields \<open>metrics_regions\<close> and \<open>metrics_misc\<close>. The display and
  scaling fields only drive \<^verbatim>\<open>print\<close> and the unused \<^verbatim>\<open>scale_state\<close>.
\<close>

record ('g, 'f) godot_environment = "'f world" +
  host :: string
  port :: nat
  socket :: "nat option"
  client_socket :: "nat option"
  godot_path_str :: string
  env_path_str :: string
  godot_process :: "nat option"
  is_godot_launched :: bool
  is_rendering :: bool
  seed :: int
  random_generator :: 'g
  metrics_regions :: "'f json list"
  metrics_misc :: "'f json list"

text \<open>
  A call takes the state and gives the outcome and the new state; \<open>None\<close> means that the
  call never returns.
\<close>

type_synonym ('a, 'g, 'f) prog =
  "('g, 'f) godot_environment \<Rightarrow> ('a outcome \<times> ('g, 'f) godot_environment) option"

definition returns :: "'a \<Rightarrow> ('a, 'g, 'f) prog" where
  "returns a s = Some (Returns a, s)"

definition lift :: "'a outcome \<Rightarrow> ('a, 'g, 'f) prog" where
  "lift r s = Some (r, s)"

definition and_then :: "('a, 'g, 'f) prog \<Rightarrow> ('a \<Rightarrow> ('b, 'g, 'f) prog) \<Rightarrow> ('b, 'g, 'f) prog" where
  "and_then m f s =
     (case m s of
        None \<Rightarrow> None
      | Some (Raises e, s') \<Rightarrow> Some (Raises e, s')
      | Some (Returns a, s') \<Rightarrow> f a s')"

subsection \<open>Construction and seeding\<close>

text \<open>
  \<^verbatim>\<open>np.random.RandomState(seed)\<close> for an integer seed: NumPy accepts a seed between 0 and
  \<open>2^32 - 1\<close> and raises \<^verbatim>\<open>ValueError\<close> for any other integer.
\<close>

definition np_RandomState :: "('g, 'f) pylib \<Rightarrow> int \<Rightarrow> 'g outcome" where
  "np_RandomState L seed_arg =
     (if 0 \<le> seed_arg \<and> seed_arg < 2 ^ 32 then Returns (RandomState L seed_arg)
      else Raises ValueError)"

text \<open>
  \<^verbatim>\<open>__init__\<close>, in a world \<open>w\<close>. The two paths come from the path discovery of
  \<^verbatim>\<open>utils.py\<close> and are arguments here. The default of \<^verbatim>\<open>seed\<close> is
  \<^verbatim>\<open>np.random.randint(0, 1e5)\<close>, drawn from NumPy's global generator \<open>g\<close>. \<open>new_object\<close> is
  the object with every attribute \<^verbatim>\<open>__init__\<close> assigns, \<open>g\<close> being the generator it has
  created; when \<^verbatim>\<open>np.random.RandomState\<close> raises, the constructor raises and there is no
  object.
\<close>

definition default_seed :: "('g, 'f) pylib \<Rightarrow> 'g \<Rightarrow> int" where
  "default_seed L g = fst (randint L g 0 100000)"

definition new_object ::
  "'f world \<Rightarrow> string \<Rightarrow> nat \<Rightarrow> string \<Rightarrow> string \<Rightarrow> int \<Rightarrow> 'g
     \<Rightarrow> ('g, 'f) godot_environment" where
  "new_object w host_arg port_arg godot_path env_path seed_arg g =
     \<lparr> trace = trace w, next_handle = next_handle w, bound_sockets = bound_sockets w,
       inbox = inbox w, heap = heap w,
       host = host_arg, port = port_arg, socket = None, client_socket = None,
       godot_path_str = godot_path, env_path_str = env_path,
       godot_process = None, is_godot_launched = False, is_rendering = True,
       seed = seed_arg, random_generator = g,
       metrics_regions = [], metrics_misc = [] \<rparr>"

definition init ::
  "('g, 'f) pylib \<Rightarrow> 'f world \<Rightarrow> string \<Rightarrow> nat \<Rightarrow> string \<Rightarrow> string \<Rightarrow> int
     \<Rightarrow> ('g, 'f) godot_environment outcome" where
  "init L w host_arg port_arg godot_path env_path seed_arg =
     (case np_RandomState L seed_arg of
        Raises e \<Rightarrow> Raises e
      | Returns g \<Rightarrow> Returns (new_object w host_arg port_arg godot_path env_path seed_arg g))"

text \<open>
  \<^verbatim>\<open>set_seed\<close>: \<^verbatim>\<open>self.seed\<close> is assigned first, so it is changed also when
  \<^verbatim>\<open>np.random.RandomState\<close> raises; the generator is replaced only when it returns.
\<close>

definition set_seed :: "('g, 'f) pylib \<Rightarrow> int \<Rightarrow> (unit, 'g, 'f) prog" where
  "set_seed L seed_arg s =
     (case np_RandomState L seed_arg of
        Raises e \<Rightarrow> Some (Raises e, s\<lparr>seed := seed_arg\<rparr>)
      | Returns g \<Rightarrow> Some (Returns (), s\<lparr>seed := seed_arg, random_generator := g\<rparr>))"

subsection \<open>Sockets and the simulation process\<close>

definition initialize_socket :: "(unit, 'g, 'f) prog" where
  "initialize_socket s =
     Some (Returns (),
       s\<lparr>trace := trace s @ [SocketCreated (next_handle s)],
         socket := Some (next_handle s),
         next_handle := Suc (next_handle s)\<rparr>)"

text \<open>
  \<^verbatim>\<open>_wait_for_connection\<close>: \<^verbatim>\<open>bind\<close>, \<^verbatim>\<open>listen\<close>, \<^verbatim>\<open>accept\<close> on \<^verbatim>\<open>self.socket\<close>. For \<^verbatim>\<open>socket.bind\<close>
  the socket must not already be bound: the operating system refuses a second \<^verbatim>\<open>bind\<close> on
  the same socket (\<^verbatim>\<open>OSError\<close>, EINVAL). The simulation is taken to connect, so \<^verbatim>\<open>accept\<close>
  returns with a new connection.
\<close>

definition wait_for_connection :: "(unit, 'g, 'f) prog" where
  "wait_for_connection s =
     (case socket s of
        None \<Rightarrow> Some (Raises AttributeError, s)
      | Some k \<Rightarrow>
          if k \<in> set (bound_sockets s) then Some (Raises OSError, s)
          else Some (Returns (),
            s\<lparr>trace := trace s @ [Bound k (host s) (port s), Listening k,
                                   Accepted k (next_handle s)],
              bound_sockets := k # bound_sockets s,
              client_socket := Some (next_handle s),
              next_handle := Suc (next_handle s)\<rparr>))"

text \<open>
  \<^verbatim>\<open>_end_connection\<close>: \<^verbatim>\<open>self.socket.close()\<close> comes first, and on \<^verbatim>\<open>None\<close> it is an
  attribute access on \<^verbatim>\<open>None\<close>.
\<close>

definition end_connection :: "(unit, 'g, 'f) prog" where
  "end_connection s =
     (case socket s of
        None \<Rightarrow> Some (Raises AttributeError, s)
      | Some k \<Rightarrow>
          Some (Returns (),
            s\<lparr>trace := trace s @ [SocketClosed k], socket := None, client_socket := None\<rparr>))"

text \<open>\<^verbatim>\<open>self.client_socket.sendall(data)\<close>.\<close>

definition sendall :: "bytes \<Rightarrow> (unit, 'g, 'f) prog" where
  "sendall data s =
     (case client_socket s of
        None \<Rightarrow> Some (Raises AttributeError, s)
      | Some c \<Rightarrow> Some (Returns (), s\<lparr>trace := trace s @ [Sent c data]\<rparr>))"

text \<open>\<^verbatim>\<open>self.godot_process.wait()\<close>.\<close>

definition process_wait :: "(unit, 'g, 'f) prog" where
  "process_wait s =
     (case godot_process s of
        None \<Rightarrow> Some (Raises AttributeError, s)
      | Some p \<Rightarrow> Some (Returns (), s\<lparr>trace := trace s @ [Waited p]\<rparr>))"

definition launch_simulation_if_needed :: "(unit, 'g, 'f) prog" where
  "launch_simulation_if_needed s =
     (if \<not> is_godot_launched s then
        (let command0 = godot_path_str s @ '' --main-pack '' @ env_path_str s;
             command = (if \<not> is_rendering s
                        then command0 @ '' --disable-render-loop --no-window''
                        else command0)
         in Some (Returns (),
              s\<lparr>trace := trace s @ [Launched (next_handle s) command],
                godot_process := Some (next_handle s),
                is_godot_launched := True,
                next_handle := Suc (next_handle s)\<rparr>))
      else Some (Returns (), s))"

subsection \<open>Requests\<close>

text \<open>
  \<^verbatim>\<open>_format_actions_data\<close>. The argument is the caller's list, as the addresses of its
  dictionaries (\<open>None\<close> is the default \<^verbatim>\<open>actions_data=None\<close>, on which \<^verbatim>\<open>len\<close> raises). The
  loop visits the entries in order; where the value under \<^verbatim>\<open>"action"\<close> is a NumPy
  integer, \<^verbatim>\<open>int(...)\<close> of it is stored back into the same dictionary. The list itself is
  returned.
\<close>

fun format_actions_loop ::
  "nat list \<Rightarrow> (nat \<Rightarrow> (string \<times> 'f pyval) list) \<Rightarrow> unit outcome \<times> (nat \<Rightarrow> (string \<times> 'f pyval) list)" where
  "format_actions_loop [] h = (Returns (), h)"
| "format_actions_loop (a # as) h =
     (case map_of (h a) ''action'' of
        None \<Rightarrow> (Raises KeyError, h)
      | Some (PNpInt i) \<Rightarrow>
          format_actions_loop as (h(a := AList.update ''action'' (PInt i) (h a)))
      | Some _ \<Rightarrow> format_actions_loop as h)"

definition format_actions_data :: "nat list option \<Rightarrow> (nat list, 'g, 'f) prog" where
  "format_actions_data actions_data s =
     (case actions_data of
        None \<Rightarrow> Some (Raises TypeError, s)
      | Some as \<Rightarrow>
          (case format_actions_loop as (heap s) of
             (Raises e, h) \<Rightarrow> Some (Raises e, s\<lparr>heap := h\<rparr>)
           | (Returns _, h) \<Rightarrow> Some (Returns as, s\<lparr>heap := h\<rparr>)))"

text \<open>\<^verbatim>\<open>json.dumps(request).encode()\<close>.\<close>

definition dumps_encode :: "('g, 'f) pylib \<Rightarrow> (string \<times> 'f pyval) list \<Rightarrow> (bytes, 'g, 'f) prog" where
  "dumps_encode L request s =
     (case json_dumps L (PDict request) of
        Raises e \<Rightarrow> Some (Raises e, s)
      | Returns txt \<Rightarrow> Some (Returns (str_encode txt), s))"

text \<open>
  \<^verbatim>\<open>_create_request\<close>. The dictionary \<^verbatim>\<open>request\<close> is filled key by key in the order of the
  source; \<^verbatim>\<open>randint(low=0, high=1e6)\<close> is drawn only for an initialization request and
  advances the generator. The value stored under \<^verbatim>\<open>"actions_data"\<close> is the caller's list,
  whose dictionaries \<^verbatim>\<open>json.dumps\<close> then reads.
\<close>

definition create_request ::
  "('g, 'f) pylib \<Rightarrow> bool \<Rightarrow> bool \<Rightarrow> nat list option \<Rightarrow> (bytes, 'g, 'f) prog" where
  "create_request L initialization termination actions_data s =
     (let request0 = AList.update ''initialization'' (PBool initialization) [];
          drawn = randint L (random_generator s) 0 1000000;
          request1 = (if initialization
                      then AList.update ''seed'' (PInt (fst drawn)) request0 else request0);
          s1 = (if initialization then s\<lparr>random_generator := snd drawn\<rparr> else s);
          request2 = AList.update ''termination'' (PBool termination) request1;
          request3 = AList.update ''render'' (PBool (is_rendering s1)) request2
      in if \<not> initialization \<and> \<not> termination then
           and_then (format_actions_data actions_data)
             (\<lambda>as s2. dumps_encode L
                (AList.update ''actions_data'' (PList (map (\<lambda>a. PDict (heap s2 a)) as)) request3)
                s2) s1
         else dumps_encode L request3 s1)"

subsection \<open>Responses\<close>

text \<open>
  \<^verbatim>\<open>_wait_and_receive_states_data\<close>: the loop \<^verbatim>\<open>while is_data_received != True\<close>. A
  received block is appended to \<^verbatim>\<open>total_data\<close> only if it is longer than 4 bytes, and the
  loop ends after an appended block shorter than 4096 bytes. The loop can run forever.
\<close>

partial_function (option) wait_and_receive_loop :: "bytes \<Rightarrow> bytes list \<Rightarrow> (bytes \<times> bytes list) option" where
  "wait_and_receive_loop total_data sock =
     (case recv sock 4096 of (data_received, sock') \<Rightarrow>
        if 4 < length data_received then
          (if length data_received < 4096 then Some (total_data @ data_received, sock')
           else wait_and_receive_loop (total_data @ data_received) sock')
        else wait_and_receive_loop total_data sock')"

definition wait_and_receive_states_data :: "('g, 'f) pylib \<Rightarrow> (string, 'g, 'f) prog" where
  "wait_and_receive_states_data L s =
     (case client_socket s of
        None \<Rightarrow> Some (Raises AttributeError, s)
      | Some c \<Rightarrow>
          (case wait_and_receive_loop [] (inbox s) of
             None \<Rightarrow> None
           | Some (total_data, rest) \<Rightarrow>
               (case bytes_decode L total_data of
                  Inl e \<Rightarrow> Some (Raises e, s\<lparr>inbox := rest\<rparr>)
                | Inr txt \<Rightarrow> Some (Returns txt, s\<lparr>inbox := rest\<rparr>))))"

text \<open>
  \<^verbatim>\<open>_format_states_data\<close>: \<^verbatim>\<open>json.loads\<close>, then every agent entry whose \<^verbatim>\<open>"state"\<close> is a
  string gets it replaced by \<^verbatim>\<open>ast.literal_eval\<close> of that string.
\<close>

fun format_states_loop :: "('g, 'f) pylib \<Rightarrow> 'f json list \<Rightarrow> 'f json list outcome" where
  "format_states_loop L [] = Returns []"
| "format_states_loop L (agent_data # rest) =
     obind (getitem agent_data ''state'')
       (\<lambda>st. obind
          (case st of
             JStr txt \<Rightarrow>
               (case literal_eval L txt of
                  Inl e \<Rightarrow> Raises e
                | Inr v \<Rightarrow> Returns (setitem agent_data ''state'' v))
           | _ \<Rightarrow> Returns agent_data)
          (\<lambda>agent_data'. obind (format_states_loop L rest)
             (\<lambda>rest'. Returns (agent_data' # rest'))))"

definition format_states_data :: "('g, 'f) pylib \<Rightarrow> string \<Rightarrow> 'f json outcome" where
  "format_states_data L txt =
     (case json_loads L txt of
        Inl e \<Rightarrow> Raises e
      | Inr state_data \<Rightarrow>
          obind (getitem state_data ''states_data'')
            (\<lambda>sd. obind (iter_items sd)
               (\<lambda>items. obind (format_states_loop L items)
                  (\<lambda>items'. Returns
                     (case sd of
                        JList _ \<Rightarrow> setitem state_data ''states_data'' (JList items')
                      | _ \<Rightarrow> state_data)))))"

definition get_environment_state :: "('g, 'f) pylib \<Rightarrow> ('f json, 'g, 'f) prog" where
  "get_environment_state L =
     and_then (wait_and_receive_states_data L) (\<lambda>states_data. lift (format_states_data L states_data))"

text \<open>
  \<^verbatim>\<open>_split_env_data\<close>: the \<^verbatim>\<open>for\<close> loop with its two accumulators; each entry gives one
  dictionary \<^verbatim>\<open>{"name", "state"}\<close> and one dictionary \<^verbatim>\<open>{"name", "reward"}\<close>.
\<close>

fun split_env_loop ::
  "'f json list \<Rightarrow> 'f json list \<Rightarrow> 'f json list \<Rightarrow> ('f json list \<times> 'f json list) outcome" where
  "split_env_loop [] states_data rewards_data = Returns (states_data, rewards_data)"
| "split_env_loop (env_datum # rest) states_data rewards_data =
     obind (getitem env_datum ''name'')
       (\<lambda>name. obind (getitem env_datum ''state'')
          (\<lambda>st. obind (getitem env_datum ''reward'')
             (\<lambda>reward. split_env_loop rest
                (states_data @ [JDict [(''name'', name), (''state'', st)]])
                (rewards_data @ [JDict [(''name'', name), (''reward'', reward)]]))))"

definition split_env_data :: "'f json \<Rightarrow> ('f json list \<times> 'f json list) outcome" where
  "split_env_data env_data = obind (iter_items env_data) (\<lambda>items. split_env_loop items [] [])"

text \<open>
  The reward scaling loop of \<^verbatim>\<open>step\<close>:
  \<^verbatim>\<open>rewards_data[n_agent]["reward"] /= n_frames\<close> for every index in order.
\<close>

fun scale_rewards :: "('g, 'f) pylib \<Rightarrow> 'f json list \<Rightarrow> 'f json \<Rightarrow> 'f json list outcome" where
  "scale_rewards L [] n_frames = Returns []"
| "scale_rewards L (reward_data # rest) n_frames =
     obind (getitem reward_data ''reward'')
       (\<lambda>r. obind (py_truediv L r n_frames)
          (\<lambda>q. obind (scale_rewards L rest n_frames)
             (\<lambda>rest'. Returns (setitem reward_data ''reward'' q # rest'))))"

subsection \<open>The main operations\<close>

text \<open>
  \<^verbatim>\<open>step\<close>. The metrics block reads \<^verbatim>\<open>env_data["states_data"][0]["metrics"]\<close>, its
  \<^verbatim>\<open>"region"\<close> and its \<^verbatim>\<open>"misc"\<close> without a test for their presence.
\<close>

definition step ::
  "('g, 'f) pylib \<Rightarrow> nat list
     \<Rightarrow> ('f json list \<times> 'f json list \<times> 'f json \<times> 'f json, 'g, 'f) prog" where
  "step L actions_data =
     and_then (create_request L False False (Some actions_data)) (\<lambda>request.
     and_then (sendall request) (\<lambda>_.
     and_then (get_environment_state L) (\<lambda>env_data.
     and_then (lift (obind (getitem env_data ''states_data'') split_env_data))
       (\<lambda>(states_data, rewards_data).
     and_then (lift (obind (obind (getitem env_data ''states_data'') getitem0)
                       (\<lambda>first. getitem first ''metrics''))) (\<lambda>metrics_data.
     and_then (lift (getitem metrics_data ''region'')) (\<lambda>region.
     and_then (\<lambda>s. Some (Returns (), s\<lparr>metrics_regions := metrics_regions s @ [region]\<rparr>)) (\<lambda>_.
     and_then (lift (getitem metrics_data ''misc'')) (\<lambda>misc.
     and_then (\<lambda>s. Some (Returns (),
                 if truthy L misc then s\<lparr>metrics_misc := metrics_misc s @ [misc]\<rparr> else s)) (\<lambda>_.
     and_then (lift (getitem env_data ''n_frames'')) (\<lambda>n_frames.
     and_then (lift (scale_rewards L rewards_data n_frames)) (\<lambda>rewards_data'.
     and_then (lift (getitem env_data ''done'')) (\<lambda>done.
     returns (states_data, rewards_data', done, n_frames)))))))))))))"

text \<open>\<^verbatim>\<open>close\<close>.\<close>

definition close :: "('g, 'f) pylib \<Rightarrow> (unit, 'g, 'f) prog" where
  "close L =
     and_then (create_request L False True None) (\<lambda>termination_request.
     and_then (sendall termination_request) (\<lambda>_.
     and_then end_connection (\<lambda>_.
     and_then process_wait (\<lambda>_ s.
     Some (Returns (), s\<lparr>is_godot_launched := False\<rparr>)))))"

text \<open>
  \<^verbatim>\<open>_change_render_type_if_needed\<close>: inside the test, \<^verbatim>\<open>_initialize_socket\<close> is guarded by
  \<^verbatim>\<open>if self.socket is None\<close>, and \<^verbatim>\<open>_wait_for_connection\<close> and \<^verbatim>\<open>close\<close> follow it
  unguarded.
\<close>

definition change_render_type_if_needed :: "('g, 'f) pylib \<Rightarrow> bool \<Rightarrow> (unit, 'g, 'f) prog" where
  "change_render_type_if_needed L render =
     and_then (\<lambda>s.
        if render \<noteq> is_rendering s \<and> is_godot_launched s then
          and_then (\<lambda>s. if socket s = None then initialize_socket s else Some (Returns (), s)) (\<lambda>_.
          and_then wait_for_connection (\<lambda>_.
          close L)) s
        else Some (Returns (), s))
       (\<lambda>_ s. Some (Returns (), s\<lparr>is_rendering := render\<rparr>))"

text \<open>\<^verbatim>\<open>reset\<close>.\<close>

definition reset :: "('g, 'f) pylib \<Rightarrow> bool \<Rightarrow> ('f json, 'g, 'f) prog" where
  "reset L render =
     and_then (change_render_type_if_needed L render) (\<lambda>_.
     and_then launch_simulation_if_needed (\<lambda>_.
     and_then (\<lambda>s. if socket s = None
                    then and_then initialize_socket (\<lambda>_. wait_for_connection) s
                    else Some (Returns (), s)) (\<lambda>_.
     and_then (create_request L True False None) (\<lambda>first_request.
     and_then (sendall first_request) (\<lambda>_.
     and_then (get_environment_state L) (\<lambda>env_data.
     and_then (lift (getitem env_data ''states_data'')) (\<lambda>states_data.
     and_then (\<lambda>s. Some (Returns (), s\<lparr>metrics_regions := [], metrics_misc := []\<rparr>)) (\<lambda>_.
     returns states_data))))))))"

subsection \<open>The later receive loop\<close>

text \<open>
  The copy of the class under \<^verbatim>\<open>build/lib\<close> has a later \<^verbatim>\<open>_wait_and_receive_states_data\<close>:
  every received block is appended, and the loop ends as soon as the bytes received so
  far decode and parse as JSON (\<^verbatim>\<open>try: json.loads(total_data.decode())\<close>, with a bare
  \<^verbatim>\<open>except: continue\<close>).
\<close>

definition parses :: "('g, 'f) pylib \<Rightarrow> bytes \<Rightarrow> bool" where
  "parses L total_data =
     (case bytes_decode L total_data of
        Inl e \<Rightarrow> False
      | Inr decoded \<Rightarrow> (case json_loads L decoded of Inl e \<Rightarrow> False | Inr v \<Rightarrow> True))"

partial_function (option) wait_and_receive_loop_later ::
  "('g, 'f) pylib \<Rightarrow> bytes \<Rightarrow> bytes list \<Rightarrow> (bytes \<times> bytes list) option" where
  "wait_and_receive_loop_later L total_data sock =
     (case recv sock 4096 of (data_received, sock') \<Rightarrow>
        if parses L (total_data @ data_received)
        then Some (total_data @ data_received, sock')
        else wait_and_receive_loop_later L (total_data @ data_received) sock')"

text \<open>
  For the statements about \<^verbatim>\<open>step\<close>, its body in two halves: the exchange with the
  simulation (build and send the request, receive and format the response), and the
  processing of the response.
\<close>

definition step_exchange :: "('g, 'f) pylib \<Rightarrow> nat list \<Rightarrow> ('f json, 'g, 'f) prog" where
  "step_exchange L actions_data =
     and_then (create_request L False False (Some actions_data)) (\<lambda>request.
     and_then (sendall request) (\<lambda>_.
     get_environment_state L))"

definition step_process ::
  "('g, 'f) pylib \<Rightarrow> 'f json
     \<Rightarrow> ('f json list \<times> 'f json list \<times> 'f json \<times> 'f json, 'g, 'f) prog" where
  "step_process L env_data =
     and_then (lift (obind (getitem env_data ''states_data'') split_env_data))
       (\<lambda>(states_data, rewards_data).
     and_then (lift (obind (obind (getitem env_data ''states_data'') getitem0)
                       (\<lambda>first. getitem first ''metrics''))) (\<lambda>metrics_data.
     and_then (lift (getitem metrics_data ''region'')) (\<lambda>region.
     and_then (\<lambda>s. Some (Returns (), s\<lparr>metrics_regions := metrics_regions s @ [region]\<rparr>)) (\<lambda>_.
     and_then (lift (getitem metrics_data ''misc'')) (\<lambda>misc.
     and_then (\<lambda>s. Some (Returns (),
                 if truthy L misc then s\<lparr>metrics_misc := metrics_misc s @ [misc]\<rparr> else s)) (\<lambda>_.
     and_then (lift (getitem env_data ''n_frames'')) (\<lambda>n_frames.
     and_then (lift (scale_rewards L rewards_data n_frames)) (\<lambda>rewards_data'.
     and_then (lift (getitem env_data ''done'')) (\<lambda>done.
     returns (states_data, rewards_data', done, n_frames))))))))))"

text \<open>
  What the loop body of \<^verbatim>\<open>_format_actions_data\<close> leaves in one dictionary: a NumPy integer
  under \<^verbatim>\<open>"action"\<close> becomes the plain integer, every other dictionary stays as it is.
\<close>

definition plain_int_action :: "(string \<times> 'f pyval) list \<Rightarrow> (string \<times> 'f pyval) list" where
  "plain_int_action d =
     (case map_of d ''action'' of
        Some (PNpInt i) \<Rightarrow> AList.update ''action'' (PInt i) d
      | _ \<Rightarrow> d)"

text \<open>
  The frame of the design document, for comparison with what \<^verbatim>\<open>_create_request\<close>
  returns: a 4-byte big-endian length followed by exactly that many bytes.
\<close>

definition is_length_prefixed_frame :: "bytes \<Rightarrow> bool" where
  "is_length_prefixed_frame out \<longleftrightarrow> 4 \<le> length out \<and> be32 (take 4 out) = length out - 4"

text \<open>
  The successive values of \<^verbatim>\<open>randint(low=0, high=1e6)\<close> from a generator state, and the
  initialization requests that \<open>k\<close> successive calls of \<^verbatim>\<open>_create_request(initialization=True)\<close>
  return (one call per \<^verbatim>\<open>reset\<close>).
\<close>

fun draws :: "('g, 'f) pylib \<Rightarrow> 'g \<Rightarrow> nat \<Rightarrow> int list" where
  "draws L g 0 = []"
| "draws L g (Suc k) =
     fst (randint L g 0 1000000) # draws L (snd (randint L g 0 1000000)) k"

fun init_requests :: "('g, 'f) pylib \<Rightarrow> nat \<Rightarrow> ('g, 'f) godot_environment \<Rightarrow> bytes list" where
  "init_requests L 0 s = []"
| "init_requests L (Suc k) s =
     (case create_request L True False None s of
        Some (Returns request, s') \<Rightarrow> request # init_requests L k s'
      | _ \<Rightarrow> [])"

text \<open>A call keeps a field of the state when no outcome of it changes the field.\<close>

definition keeps :: "(('g, 'f) godot_environment \<Rightarrow> 'x) \<Rightarrow> ('a, 'g, 'f) prog \<Rightarrow> bool" where
  "keeps field m \<longleftrightarrow> (\<forall>s r s'. m s = Some (r, s') \<longrightarrow> field s' = field s)"

text \<open>
  The operands of \<^verbatim>\<open>x / n\<close>, for a number \<open>x\<close> and an integer \<open>n\<close>, that are within the float
  range: the quotient of two integers is below the bound \<open>float_int_bound\<close>, and with a
  float \<open>x\<close> the integer \<open>n\<close> is. \<open>quotient_by\<close> is the float that \<^verbatim>\<open>x / n\<close> is there.
\<close>

fun in_float_range :: "int + 'f \<Rightarrow> int \<Rightarrow> bool" where
  "in_float_range (Inl i) n \<longleftrightarrow> \<bar>i\<bar> < float_int_bound * \<bar>n\<bar>"
| "in_float_range (Inr f) n \<longleftrightarrow> \<bar>n\<bar> < float_int_bound"

fun quotient_by :: "('g, 'f) pylib \<Rightarrow> int + 'f \<Rightarrow> int \<Rightarrow> 'f" where
  "quotient_by L (Inl i) n = int_truediv L i n"
| "quotient_by L (Inr f) n = float_div L f (float_of_int L n)"


subsection \<open>A test double of the library and sample sessions\<close>

text \<open>
  For evaluating the model on concrete inputs: a library whose generator is a linear
  congruential one, whose floats are rationals, whose \<^verbatim>\<open>bytes.decode\<close> accepts ASCII, and
  whose \<^verbatim>\<open>json.loads\<close> knows the sample responses below and rejects every other text.
\<close>

definition response_ok :: bytes where
  \<open>response_ok = ''{"states_data": [{"name": "Plane", "state": [1, 2], "reward": 8.0, "metrics": {"region": 3, "misc": 1}}], "n_frames": 4, "done": false}''\<close>

definition response_ok_json :: "rat json" where
  "response_ok_json =
     JDict [(''states_data'',
               JList [JDict [(''name'', JStr ''Plane''), (''state'', JList [JInt 1, JInt 2]),
                             (''reward'', JFloat 8),
                             (''metrics'', JDict [(''region'', JInt 3), (''misc'', JInt 1)])]]),
            (''n_frames'', JInt 4), (''done'', JBool False)]"

definition response_no_metrics :: bytes where
  \<open>response_no_metrics = ''{"states_data": [{"name": "Plane", "state": [1, 2], "reward": 8.0}], "n_frames": 4, "done": false}''\<close>

definition response_no_metrics_json :: "rat json" where
  "response_no_metrics_json =
     JDict [(''states_data'',
               JList [JDict [(''name'', JStr ''Plane''), (''state'', JList [JInt 1, JInt 2]),
                             (''reward'', JFloat 8)]]),
            (''n_frames'', JInt 4), (''done'', JBool False)]"

definition response_zero_frames :: bytes where
  \<open>response_zero_frames = ''{"states_data": [{"name": "Plane", "state": [1, 2], "reward": 8.0, "metrics": {"region": 3, "misc": 1}}], "n_frames": 0, "done": false}''\<close>

definition response_zero_frames_json :: "rat json" where
  "response_zero_frames_json =
     JDict [(''states_data'',
               JList [JDict [(''name'', JStr ''Plane''), (''state'', JList [JInt 1, JInt 2]),
                             (''reward'', JFloat 8),
                             (''metrics'', JDict [(''region'', JInt 3), (''misc'', JInt 1)])]]),
            (''n_frames'', JInt 0), (''done'', JBool False)]"

definition lcg :: "nat \<Rightarrow> nat" where
  "lcg g = (1103515245 * g + 12345) mod 2147483648"

definition test_lib :: "(nat, rat) pylib" where
  "test_lib =
     \<lparr> RandomState = (\<lambda>seed_arg. nat \<bar>seed_arg\<bar> mod 2147483648),
       randint = (\<lambda>g low high. (low + int (lcg g mod nat (high - low)), lcg g)),
       float_of_int = of_int,
       int_truediv = (\<lambda>i j. of_int i / of_int j),
       float_div = (\<lambda>x y. x / y),
       float_is_zero = (\<lambda>f. f = 0),
       float_repr = (\<lambda>f. show_int \<lfloor>f\<rfloor> @ ''.0''),
       bytes_decode = (\<lambda>bs. if list_all (\<lambda>c. of_char c < (128::nat)) bs
                             then Inr bs else Inl UnicodeDecodeError),
       json_loads = (\<lambda>txt.
          if txt = response_ok then Inr response_ok_json
          else if txt = response_no_metrics then Inr response_no_metrics_json
          else if txt = response_zero_frames then Inr response_zero_frames_json
          else Inl JSONDecodeError),
       literal_eval = (\<lambda>txt. Inl ValueError) \<rparr>"

text \<open>
  A world in which the simulation will deliver the given chunks and the caller holds the
  given action dictionaries; the new session in it that \<^verbatim>\<open>__init__\<close> returns for the seed
  42; and the same session once it is connected (process 0 launched, socket 1 listening,
  connection 2).
\<close>

definition test_world :: "bytes list \<Rightarrow> (nat \<Rightarrow> (string \<times> rat pyval) list) \<Rightarrow> rat world" where
  "test_world chunks h =
     \<lparr> trace = [], next_handle = 0, bound_sockets = [], inbox = chunks, heap = h \<rparr>"

definition new_session ::
  "bytes list \<Rightarrow> (nat \<Rightarrow> (string \<times> rat pyval) list) \<Rightarrow> (nat, rat) godot_environment" where
  "new_session chunks h =
     new_object (test_world chunks h) ''127.0.0.1'' 4242 ''godot'' ''env.pck'' 42
       (RandomState test_lib 42)"

definition ready_session ::
  "bytes list \<Rightarrow> (nat \<Rightarrow> (string \<times> rat pyval) list) \<Rightarrow> (nat, rat) godot_environment" where
  "ready_session chunks h =
     (new_session chunks h)
       \<lparr> next_handle := 3, bound_sockets := [1],
         socket := Some 1, client_socket := Some 2,
         godot_process := Some 0, is_godot_launched := True \<rparr>"

text \<open>The caller's actions \<^verbatim>\<open>[{"name": "Plane", "action": np.int64(2)}]\<close>, at address 0.\<close>

definition plane_action :: "nat \<Rightarrow> (string \<times> rat pyval) list" where
  "plane_action = (\<lambda>a. if a = 0 then [(''name'', PStr ''Plane''), (''action'', PNpInt 2)] else [])"

text \<open>Three caller's actions: a NumPy integer, a float and a string.\<close>

definition mixed_actions :: "nat \<Rightarrow> (string \<times> rat pyval) list" where
  "mixed_actions = (\<lambda>a.
     if a = 0 then [(''name'', PStr ''A''), (''action'', PNpInt 2)]
     else if a = 1 then [(''name'', PStr ''B''), (''action'', PFloat (1/2))]
     else if a = 2 then [(''name'', PStr ''C''), (''action'', PStr ''left'')]
     else [])"

text \<open>
  The session after \<^verbatim>\<open>reset(render=True)\<close> on a new session: the process is launched, the
  socket is bound and listening, the simulation is connected, the initialization request
  has been sent and one more response is still to come.
\<close>

definition session_after_reset :: "(nat, rat) godot_environment" where
  \<open>session_after_reset =
     (ready_session [response_ok] plane_action)
       \<lparr> trace := [Launched 0 ''godot --main-pack env.pck'', SocketCreated 1,
                   Bound 1 ''127.0.0.1'' 4242, Listening 1, Accepted 1 2,
                   Sent 2 ''{"initialization": true, "seed": 496027, "termination": false, "render": true}''],
         random_generator := 1250496027 \<rparr>\<close>

section \<open>Properties\<close>

subsection \<open>Reading one length-prefixed frame\<close>

lemma recv_nonempty:
  assumes "[] \<notin> set sock" "sock \<noteq> []" "0 < k" "recv sock k = (packet, sock')"
  shows "packet \<noteq> [] \<and> packet @ concat sock' = concat sock \<and> length packet \<le> k \<and> [] \<notin> set sock'"
  using assms by (cases sock) (auto split: if_splits)

lemma recvall_loop_done: "\<not> length data < n \<Longrightarrow> recvall_loop sock n data = (Returns (Some data), sock)"
  by (subst recvall_loop.simps) simp

lemma recvall_loop_closed: "length data < n \<Longrightarrow> recvall_loop [] n data = (Returns None, [])"
  by (subst recvall_loop.simps) simp

lemma recvall_loop_char:
  "[] \<notin> set sock \<Longrightarrow> length data \<le> n \<Longrightarrow>
   fst (recvall_loop sock n data) =
     (if n \<le> length data + length (concat sock)
      then Returns (Some (data @ take (n - length data) (concat sock))) else Returns None)
   \<and> concat (snd (recvall_loop sock n data)) =
     (if n \<le> length data + length (concat sock)
      then drop (n - length data) (concat sock) else [])
   \<and> [] \<notin> set (snd (recvall_loop sock n data))"
proof (induction sock n data rule: recvall_loop.induct)
  case (1 sock n data)
  show ?case
  proof (cases "length data < n")
    case False
    with "1.prems" show ?thesis by (simp add: recvall_loop_done)
  next
    case True
    show ?thesis
    proof (cases sock)
      case Nil
      with True show ?thesis by (simp add: recvall_loop_closed)
    next
      case (Cons c cs)
      obtain packet sock' where r: "recv sock (n - length data) = (packet, sock')"
        by (cases "recv sock (n - length data)")
      from recv_nonempty[OF "1.prems"(1) _ _ r] Cons True
      have p: "packet \<noteq> []" "packet @ concat sock' = concat sock"
        "length packet \<le> n - length data" "[] \<notin> set sock'" by auto
      have len: "length (data @ packet) \<le> n" using p(3) True by simp
      note IH = "1.IH"[OF True r[symmetric] p(1) p(4) len]
      have unf: "recvall_loop sock n data = recvall_loop sock' n (data @ packet)"
        using True r p(1) by (subst recvall_loop.simps) simp
      have cc: "concat sock = packet @ concat sock'" using p(2) by simp
      show ?thesis
        unfolding unf using IH p(3) True
        by (auto simp: cc)
    qed
  qed
qed

lemma recvall_char:
  assumes "[] \<notin> set sock"
  shows "fst (recvall sock n) =
           (if n \<le> length (concat sock) then Returns (Some (take n (concat sock))) else Returns None)"
    and "concat (snd (recvall sock n)) = (if n \<le> length (concat sock) then drop n (concat sock) else [])"
    and "[] \<notin> set (snd (recvall sock n))"
  using recvall_loop_char[OF assms, of "[]" n] by (simp_all add: recvall_def)

text \<open>
  Claim C3, as the code has it. On a stream that delivers its bytes in any non-empty
  chunks, \<open>recv_msg\<close> reads the 4-byte big-endian length and then exactly that many body
  bytes, and leaves the rest of the stream unread. When the stream closes before the
  fourth header byte, or before the body is complete, it returns \<^verbatim>\<open>None\<close>: the same
  value in both cases, and no exception. The body is returned as bytes; it is not parsed.
\<close>

theorem recv_msg_reads_one_frame:
  assumes "[] \<notin> set sock"
  shows "fst (recv_msg sock) =
           (if length (concat sock) < 4 then Returns None
            else if length (concat sock) < 4 + be32 (take 4 (concat sock)) then Returns None
            else Returns (Some (take (be32 (take 4 (concat sock))) (drop 4 (concat sock)))))
       \<and> concat (snd (recv_msg sock)) =
           (if length (concat sock) < 4 \<or> length (concat sock) < 4 + be32 (take 4 (concat sock))
            then [] else drop (4 + be32 (take 4 (concat sock))) (concat sock))"
proof (cases "length (concat sock) < 4")
  case True
  then have "fst (recvall sock 4) = Returns None" "concat (snd (recvall sock 4)) = []"
    using recvall_char[OF assms, of 4] by simp_all
  then show ?thesis using True
    by (cases "recvall sock 4") (simp add: recv_msg_def)
next
  case False
  define raw where "raw = take 4 (concat sock)"
  define sock' where "sock' = snd (recvall sock 4)"
  have h: "fst (recvall sock 4) = Returns (Some raw)" "concat sock' = drop 4 (concat sock)"
    "[] \<notin> set sock'"
    using recvall_char[OF assms, of 4] False by (simp_all add: raw_def sock'_def)
  have lr: "length raw = 4" using False by (simp add: raw_def)
  then have ne: "raw \<noteq> []" by auto
  have step: "recv_msg sock = recvall sock' (be32 raw)"
    using h(1) lr ne by (cases "recvall sock 4") (simp add: recv_msg_def unpack_be32_def sock'_def)
  show ?thesis
    unfolding step using recvall_char[OF h(3), of "be32 raw"] False
    by (auto simp: h(2) raw_def add.commute)
qed

theorem recv_msg_reads_one_frame_witness:
  "[] \<notin> set [[CHR 0x00, CHR 0x00], [CHR 0x00, CHR 0x02, CHR ''a''], ''bc'']
   \<and> recv_msg [[CHR 0x00, CHR 0x00], [CHR 0x00, CHR 0x02, CHR ''a''], ''bc''] = (Returns (Some ''ab''), [''c''])"
proof -
  let ?sock = "[[CHR 0x00, CHR 0x00], [CHR 0x00, CHR 0x02, CHR ''a''], ''bc'']"
  have ne: "[] \<notin> set ?sock" by simp
  have "fst (recv_msg ?sock) = Returns (Some ''ab'')"
    using recv_msg_reads_one_frame[OF ne] by (simp add: be32_def)
  moreover have "recv_msg ?sock = (Returns (Some ''ab''), [''c''])"
    by (simp add: recv_msg_def recvall_def recvall_loop.simps unpack_be32_def be32_def)
  ultimately show ?thesis using ne by simp
qed

text \<open>
  The statement of C3 with its typed errors fails: a stream closed before the header, and
  a stream closed inside the body, both make \<open>recv_msg\<close> return \<^verbatim>\<open>None\<close>, and a body that is
  not JSON is returned as it is.
\<close>

theorem recv_msg_untyped_failures:
  "fst (recv_msg []) = Returns None
   \<and> fst (recv_msg [[CHR 0x00, CHR 0x00, CHR 0x00, CHR 0x05], ''ab'']) = Returns None
   \<and> fst (recv_msg [[CHR 0x00, CHR 0x00, CHR 0x00, CHR 0x02], ''ab'']) = Returns (Some ''ab'')"
  by (simp add: recv_msg_def recvall_def recvall_loop.simps unpack_be32_def be32_def)

subsection \<open>The response processing of \<^verbatim>\<open>step\<close>\<close>

lemma and_then_assoc:
  "and_then (and_then m f) g = and_then m (\<lambda>x. and_then (f x) g)"
  by (rule ext) (auto simp: and_then_def split: option.splits outcome.splits prod.splits)

lemma step_halves: "step L actions_data = and_then (step_exchange L actions_data) (step_process L)"
  by (simp add: step_def step_exchange_def step_process_def[abs_def] and_then_assoc)

lemma and_then_Returns: "m s = Some (Returns a, s') \<Longrightarrow> and_then m f s = f a s'"
  by (simp add: and_then_def)

lemma and_then_lift_Returns [simp]: "and_then (lift (Returns a)) f = f a"
  by (rule ext) (simp add: and_then_def lift_def)

lemma and_then_lift_Raises [simp]: "and_then (lift (Raises e)) f = lift (Raises e)"
  by (rule ext) (simp add: and_then_def lift_def)

lemma and_then_Some_Returns [simp]: "and_then (\<lambda>s. Some (Returns a, g s)) f = (\<lambda>s. f a (g s))"
  by (rule ext) (simp add: and_then_def)

lemma split_env_loop_char:
  assumes "\<forall>d\<in>set ds. getitem d ''name'' = Returns (name_of d)
                    \<and> getitem d ''state'' = Returns (state_of d)
                    \<and> getitem d ''reward'' = Returns (reward_of d)"
  shows "split_env_loop ds states_data rewards_data =
           Returns (states_data @ map (\<lambda>d. JDict [(''name'', name_of d), (''state'', state_of d)]) ds,
                    rewards_data @ map (\<lambda>d. JDict [(''name'', name_of d), (''reward'', reward_of d)]) ds)"
  using assms by (induction ds arbitrary: states_data rewards_data) simp_all

lemma float_int_bound_pos: "0 < float_int_bound"
  by (simp add: float_int_bound_def)

lemma truediv_int_divisor:
  "n \<noteq> 0 \<Longrightarrow>
   truediv L x (Inl n) =
     (if in_float_range x n then Returns (quotient_by L x n) else Raises OverflowError)"
  by (cases x) simp_all

lemma truediv_zero_int: "truediv L x (Inl 0) = Raises ZeroDivisionError"
  by (cases x) (simp_all add: float_int_bound_pos)

lemma scale_rewards_char:
  assumes "\<forall>d\<in>set ds. as_number (reward_of d) = Some (num_of d)" and "n \<noteq> 0"
  shows "scale_rewards L (map (\<lambda>d. JDict [(''name'', name_of d), (''reward'', reward_of d)]) ds) (JInt n) =
           (if \<forall>d\<in>set ds. in_float_range (num_of d) n
            then Returns (map (\<lambda>d. JDict [(''name'', name_of d),
                                          (''reward'', JFloat (quotient_by L (num_of d) n))]) ds)
            else Raises OverflowError)"
  using assms by (induction ds) (simp_all add: py_truediv_def truediv_int_divisor)

lemma scale_rewards_zero:
  assumes "\<forall>d\<in>set ds. as_number (reward_of d) = Some (num_of d)" and "ds \<noteq> []"
  shows "scale_rewards L (map (\<lambda>d. JDict [(''name'', name_of d), (''reward'', reward_of d)]) ds) (JInt 0) =
           Raises ZeroDivisionError"
  using assms by (cases ds) (simp_all add: py_truediv_def truediv_zero_int)

lemma step_process_char:
  assumes sd: "getitem env_data ''states_data'' = Returns (JList ds)"
    and wf: "\<forall>d\<in>set ds. getitem d ''name'' = Returns (name_of d)
                    \<and> getitem d ''state'' = Returns (state_of d)
                    \<and> getitem d ''reward'' = Returns (reward_of d)"
    and m: "ds \<noteq> []" "getitem (hd ds) ''metrics'' = Returns metrics_data"
      "getitem metrics_data ''region'' = Returns region"
      "getitem metrics_data ''misc'' = Returns misc"
    and nf: "getitem env_data ''n_frames'' = Returns n_frames"
  shows "step_process L env_data s =
     and_then (lift (scale_rewards L
                 (map (\<lambda>d. JDict [(''name'', name_of d), (''reward'', reward_of d)]) ds) n_frames))
       (\<lambda>rewards_data'.
          and_then (lift (getitem env_data ''done'')) (\<lambda>done.
            returns (map (\<lambda>d. JDict [(''name'', name_of d), (''state'', state_of d)]) ds,
                     rewards_data', done, n_frames)))
       (if truthy L misc
        then s\<lparr>metrics_regions := metrics_regions s @ [region],
                metrics_misc := metrics_misc s @ [misc]\<rparr>
        else s\<lparr>metrics_regions := metrics_regions s @ [region]\<rparr>)"
proof -
  have split: "split_env_data (JList ds) =
      Returns (map (\<lambda>d. JDict [(''name'', name_of d), (''state'', state_of d)]) ds,
               map (\<lambda>d. JDict [(''name'', name_of d), (''reward'', reward_of d)]) ds)"
    using split_env_loop_char[OF wf, of "[]" "[]"] by (simp add: split_env_data_def)
  have first: "(case ds of [] \<Rightarrow> Raises IndexError | x # _ \<Rightarrow> Returns x) = Returns (hd ds)"
    using m(1) by (cases ds) simp_all
  show ?thesis
    by (simp add: step_process_def sd split first m nf)
qed


lemma wait_and_receive_single:
  "4 < length c \<Longrightarrow> length c < 4096 \<Longrightarrow> wait_and_receive_loop t [c] = Some (t @ c, [])"
  by (subst wait_and_receive_loop.simps) simp

lemma step_request_plane:
  \<open>create_request test_lib False False (Some [0]) (ready_session chunks plane_action)
   = Some (Returns ''{"initialization": false, "termination": false, "render": true, "actions_data": [{"name": "Plane", "action": 2}]}'',
       (ready_session chunks plane_action)\<lparr>heap := plane_action(0 := [(''name'', PStr ''Plane''), (''action'', PInt 2)])\<rparr>)\<close>
  by (simp add: create_request_def ready_session_def new_session_def new_object_def test_world_def
      format_actions_data_def plane_action_def and_then_def dumps_encode_def json_dumps_def
      encode_basestring_ascii_def escape_char_def str_encode_def show_int_def show_nat.simps)

lemma ascii_response_ok: "list_all (\<lambda>c. of_char c < (128::nat)) response_ok"
  by (simp add: response_ok_def)

lemma ascii_response_no_metrics: "list_all (\<lambda>c. of_char c < (128::nat)) response_no_metrics"
  by (simp add: response_no_metrics_def)

lemma ascii_response_zero_frames: "list_all (\<lambda>c. of_char c < (128::nat)) response_zero_frames"
  by (simp add: response_zero_frames_def)

lemma response_lengths:
  "length response_ok = 135" "length response_no_metrics = 98" "length response_zero_frames = 135"
  by (simp_all add: response_ok_def response_no_metrics_def response_zero_frames_def)

lemma responses_distinct:
  "response_no_metrics \<noteq> response_ok" "response_zero_frames \<noteq> response_ok"
  "response_zero_frames \<noteq> response_no_metrics"
  by (simp_all add: response_ok_def response_no_metrics_def response_zero_frames_def)

lemma exchange_after_request:
  \<open>step_exchange test_lib [0] (ready_session chunks plane_action) =
     and_then (sendall ''{"initialization": false, "termination": false, "render": true, "actions_data": [{"name": "Plane", "action": 2}]}'')
       (\<lambda>_. get_environment_state test_lib)
       ((ready_session chunks plane_action)\<lparr>heap := plane_action(0 := [(''name'', PStr ''Plane''), (''action'', PInt 2)])\<rparr>)\<close>
  by (simp add: step_exchange_def and_then_def step_request_plane)

lemmas exchange_eval =
  sendall_def get_environment_state_def wait_and_receive_states_data_def and_then_def lift_def
  ready_session_def new_session_def new_object_def test_world_def
  wait_and_receive_single response_lengths responses_distinct test_lib_def
  ascii_response_ok ascii_response_no_metrics ascii_response_zero_frames
  format_states_data_def

lemma exchange_response_ok:
  "\<exists>s'. step_exchange test_lib [0] (ready_session [response_ok] plane_action)
         = Some (Returns response_ok_json, s')"
  unfolding exchange_after_request
  by (simp add: exchange_eval response_ok_json_def)

lemma exchange_response_no_metrics:
  "\<exists>s'. step_exchange test_lib [0] (ready_session [response_no_metrics] plane_action)
         = Some (Returns response_no_metrics_json, s')"
  unfolding exchange_after_request
  by (simp add: exchange_eval response_no_metrics_json_def)

lemma exchange_response_zero_frames:
  "\<exists>s'. step_exchange test_lib [0] (ready_session [response_zero_frames] plane_action)
         = Some (Returns response_zero_frames_json, s')"
  unfolding exchange_after_request
  by (simp add: exchange_eval response_zero_frames_json_def)


lemma and_then_lift_eq_Returns:
  "and_then (lift X) f s = Some (Returns r, t) \<longleftrightarrow> (\<exists>x. X = Returns x \<and> f x s = Some (Returns r, t))"
  by (cases X) (simp_all add: lift_def)

lemma scale_rewards_names:
  "scale_rewards L (map (\<lambda>d. JDict [(''name'', name_of d), (''reward'', reward_of d)]) ds) n_frames
     = Returns rs \<Longrightarrow>
   map (\<lambda>r. getitem r ''name'') rs = map (\<lambda>d. Returns (name_of d)) ds"
proof (induction ds arbitrary: rs)
  case Nil
  then show ?case by simp
next
  case (Cons d ds)
  then show ?case
    by (cases "py_truediv L (reward_of d) n_frames";
        cases "scale_rewards L (map (\<lambda>d. JDict [(''name'', name_of d), (''reward'', reward_of d)]) ds) n_frames")
       auto
qed

lemma step_from_exchange:
  "step_exchange L actions_data s = Some (Returns env_data, s') \<Longrightarrow>
   step L actions_data s = step_process L env_data s'"
  by (simp add: step_halves and_then_def)

lemma wf_split:
  assumes "\<forall>d\<in>set ds. getitem d ''name'' = Returns (name_of d)
                    \<and> getitem d ''state'' = Returns (state_of d)
                    \<and> getitem d ''reward'' = Returns (reward_of d)
                    \<and> as_number (reward_of d) = Some (num_of d)"
  shows "\<forall>d\<in>set ds. getitem d ''name'' = Returns (name_of d)
                    \<and> getitem d ''state'' = Returns (state_of d)
                    \<and> getitem d ''reward'' = Returns (reward_of d)"
    and "\<forall>d\<in>set ds. as_number (reward_of d) = Some (num_of d)"
  using assms by auto

text \<open>
  A reward beyond the float range makes the division, and with it \<open>step\<close>, raise
  \<^verbatim>\<open>OverflowError\<close>.
\<close>

lemma step_reward_overflow:
  assumes ex: "step_exchange L actions_data s = Some (Returns env_data, s')"
    and sd: "getitem env_data ''states_data'' = Returns (JList ds)"
    and wf: "\<forall>d\<in>set ds. getitem d ''name'' = Returns (name_of d)
                    \<and> getitem d ''state'' = Returns (state_of d)
                    \<and> getitem d ''reward'' = Returns (reward_of d)
                    \<and> as_number (reward_of d) = Some (num_of d)"
    and m: "ds \<noteq> []" "getitem (hd ds) ''metrics'' = Returns metrics_data"
      "getitem metrics_data ''region'' = Returns region"
      "getitem metrics_data ''misc'' = Returns misc"
    and nf: "getitem env_data ''n_frames'' = Returns (JInt n)" "1 \<le> n"
    and rng: "\<not> (\<forall>d\<in>set ds. in_float_range (num_of d) n)"
  shows "map_option fst (step L actions_data s) = Some (Raises OverflowError)"
proof -
  have n: "n \<noteq> 0" using nf(2) by simp
  show ?thesis
    unfolding step_from_exchange[OF ex] step_process_char[OF sd wf_split(1)[OF wf] m nf(1)]
      scale_rewards_char[OF wf_split(2)[OF wf] n]
    using rng by (auto simp: lift_def)
qed

lemma truediv_examples:
  "truediv L (Inl (10 ^ 400)) (Inl 4) = Raises OverflowError"
  "truediv L (Inr f) (Inl (10 ^ 400)) = Raises OverflowError"
  "truediv L (Inl (10 ^ 400)) (Inr g) = Raises OverflowError"
  "truediv L (Inl (10 ^ 400)) (Inl 0) = Raises ZeroDivisionError"
  by (simp_all add: float_int_bound_def)

text \<open>
  Claim C4, with the conditions the code adds. The response is what the exchange of
  \<open>step\<close> yields. When every agent entry has a name, a state and a numeric reward, the
  first entry carries a \<^verbatim>\<open>"metrics"\<close> dictionary with the entries \<^verbatim>\<open>"region"\<close> and \<^verbatim>\<open>"misc"\<close>,
  \<^verbatim>\<open>n_frames\<close> is an integer of at least 1, and every division is within the float range
  (\<open>in_float_range\<close>: for an integer reward \<open>i\<close>, \<open>\<bar>i\<bar> < (2^1024 - 2^970) * n_frames\<close>; for a
  float reward, \<open>n_frames < 2^1024 - 2^970\<close>), then \<open>step\<close> returns: for every agent, in the
  order of the response, the state and the reward divided by \<^verbatim>\<open>n_frames\<close> (Python's true
  division, \<open>quotient_by\<close>), and the \<^verbatim>\<open>done\<close> flag and \<^verbatim>\<open>n_frames\<close> of the response unchanged.
  Outside the float range \<open>step\<close> raises \<^verbatim>\<open>OverflowError\<close> (\<open>step_reward_overflow\<close>).
\<close>

theorem step_divides_rewards_by_n_frames:
  assumes ex: "step_exchange L actions_data s = Some (Returns env_data, s')"
    and sd: "getitem env_data ''states_data'' = Returns (JList ds)"
    and wf: "\<forall>d\<in>set ds. getitem d ''name'' = Returns (name_of d)
                    \<and> getitem d ''state'' = Returns (state_of d)
                    \<and> getitem d ''reward'' = Returns (reward_of d)
                    \<and> as_number (reward_of d) = Some (num_of d)"
    and m: "ds \<noteq> []" "getitem (hd ds) ''metrics'' = Returns metrics_data"
      "getitem metrics_data ''region'' = Returns region"
      "getitem metrics_data ''misc'' = Returns misc"
    and nf: "getitem env_data ''n_frames'' = Returns (JInt n)" "1 \<le> n"
    and rng: "\<forall>d\<in>set ds. in_float_range (num_of d) n"
    and dn: "getitem env_data ''done'' = Returns done"
  shows "map_option fst (step L actions_data s) =
     Some (Returns (map (\<lambda>d. JDict [(''name'', name_of d), (''state'', state_of d)]) ds,
                    map (\<lambda>d. JDict [(''name'', name_of d),
                                     (''reward'', JFloat (quotient_by L (num_of d) n))]) ds,
                    done, JInt n))"
proof -
  have n: "n \<noteq> 0" using nf(2) by simp
  show ?thesis
    unfolding step_from_exchange[OF ex] step_process_char[OF sd wf_split(1)[OF wf] m nf(1)]
      scale_rewards_char[OF wf_split(2)[OF wf] n]
    using rng by (simp add: dn returns_def)
qed

text \<open>
  The scenario of the design document: the agent \<^verbatim>\<open>Plane\<close>, a reward of 8.0 over 4 frames,
  gives the reward 2.0.
\<close>

theorem step_divides_rewards_by_n_frames_witness:
  "map_option fst (step test_lib [0] (ready_session [response_ok] plane_action)) =
     Some (Returns ([JDict [(''name'', JStr ''Plane''), (''state'', JList [JInt 1, JInt 2])]],
                    [JDict [(''name'', JStr ''Plane''), (''reward'', JFloat 2)]],
                    JBool False, JInt 4))"
proof -
  obtain s' where ex: "step_exchange test_lib [0] (ready_session [response_ok] plane_action)
         = Some (Returns response_ok_json, s')"
    using exchange_response_ok by blast
  show ?thesis
    using step_divides_rewards_by_n_frames[OF ex,
        where ds = "[JDict [(''name'', JStr ''Plane''), (''state'', JList [JInt 1, JInt 2]),
                             (''reward'', JFloat 8),
                             (''metrics'', JDict [(''region'', JInt 3), (''misc'', JInt 1)])]]"
          and name_of = "\<lambda>_. JStr ''Plane''" and state_of = "\<lambda>_. JList [JInt 1, JInt 2]"
          and reward_of = "\<lambda>_. JFloat 8" and num_of = "\<lambda>_. Inr 8"
          and metrics_data = "JDict [(''region'', JInt 3), (''misc'', JInt 1)]"
          and region = "JInt 3" and misc = "JInt 1" and n = 4 and ?done = "JBool False"]
    by (simp add: response_ok_json_def test_lib_def float_int_bound_def)
qed

text \<open>
  C4 as stated fails: a response with \<^verbatim>\<open>n_frames = 4\<close> whose agent entry has no
  \<^verbatim>\<open>"metrics"\<close> makes \<open>step\<close> raise \<^verbatim>\<open>KeyError\<close> instead of returning.
\<close>

theorem step_without_metrics_raises:
  "map_option fst (step test_lib [0] (ready_session [response_no_metrics] plane_action)) =
     Some (Raises KeyError)"
proof -
  obtain s' where ex: "step_exchange test_lib [0] (ready_session [response_no_metrics] plane_action)
         = Some (Returns response_no_metrics_json, s')"
    using exchange_response_no_metrics by blast
  show ?thesis
    unfolding step_from_exchange[OF ex]
    by (simp add: step_process_def response_no_metrics_json_def split_env_data_def lift_def)
qed

text \<open>
  Claim C5, as the code has it. When \<^verbatim>\<open>n_frames\<close> of the response is the integer 0, there
  is at least one agent, every agent entry has a name, a state and a numeric reward, and
  the first entry carries a \<^verbatim>\<open>"metrics"\<close> dictionary with the entries \<^verbatim>\<open>"region"\<close> and
  \<^verbatim>\<open>"misc"\<close>, \<open>step\<close> does fail, but it is the reward division itself that raises: the
  outcome is \<^verbatim>\<open>ZeroDivisionError\<close>, whatever the size of the rewards.
\<close>

theorem step_zero_frames_raises_in_division:
  assumes ex: "step_exchange L actions_data s = Some (Returns env_data, s')"
    and sd: "getitem env_data ''states_data'' = Returns (JList ds)"
    and wf: "\<forall>d\<in>set ds. getitem d ''name'' = Returns (name_of d)
                    \<and> getitem d ''state'' = Returns (state_of d)
                    \<and> getitem d ''reward'' = Returns (reward_of d)
                    \<and> as_number (reward_of d) = Some (num_of d)"
    and m: "ds \<noteq> []" "getitem (hd ds) ''metrics'' = Returns metrics_data"
      "getitem metrics_data ''region'' = Returns region"
      "getitem metrics_data ''misc'' = Returns misc"
    and nf: "getitem env_data ''n_frames'' = Returns (JInt 0)"
  shows "map_option fst (step L actions_data s) = Some (Raises ZeroDivisionError)"
  unfolding step_from_exchange[OF ex] step_process_char[OF sd wf_split(1)[OF wf] m nf]
    scale_rewards_zero[OF wf_split(2)[OF wf] m(1)]
  by (simp add: lift_def)

text \<open>The sample response with \<^verbatim>\<open>n_frames = 0\<close>.\<close>

theorem step_zero_frames_raises_in_division_witness:
  "map_option fst (step test_lib [0] (ready_session [response_zero_frames] plane_action)) =
     Some (Raises ZeroDivisionError)"
proof -
  obtain s' where ex: "step_exchange test_lib [0] (ready_session [response_zero_frames] plane_action)
         = Some (Returns response_zero_frames_json, s')"
    using exchange_response_zero_frames by blast
  show ?thesis
    using step_zero_frames_raises_in_division[OF ex,
        where ds = "[JDict [(''name'', JStr ''Plane''), (''state'', JList [JInt 1, JInt 2]),
                             (''reward'', JFloat 8),
                             (''metrics'', JDict [(''region'', JInt 3), (''misc'', JInt 1)])]]"
          and name_of = "\<lambda>_. JStr ''Plane''" and state_of = "\<lambda>_. JList [JInt 1, JInt 2]"
          and reward_of = "\<lambda>_. JFloat 8" and num_of = "\<lambda>_. Inr 8"
          and metrics_data = "JDict [(''region'', JInt 3), (''misc'', JInt 1)]"
          and region = "JInt 3" and misc = "JInt 1"]
    by (simp add: response_zero_frames_json_def)
qed

text \<open>
  C5 as stated fails: on the sample response with \<^verbatim>\<open>n_frames = 0\<close> the error of \<open>step\<close> is
  \<^verbatim>\<open>ZeroDivisionError\<close>, raised by the division, and not \<^verbatim>\<open>ProtocolViolation\<close>.
\<close>

theorem step_zero_frames_no_protocol_violation:
  "map_option fst (step test_lib [0] (ready_session [response_zero_frames] plane_action))
     = Some (Raises ZeroDivisionError)
   \<and> map_option fst (step test_lib [0] (ready_session [response_zero_frames] plane_action))
     \<noteq> Some (Raises ProtocolViolation)"
proof -
  obtain s' where ex: "step_exchange test_lib [0] (ready_session [response_zero_frames] plane_action)
         = Some (Returns response_zero_frames_json, s')"
    using exchange_response_zero_frames by blast
  show ?thesis
    unfolding step_from_exchange[OF ex]
    by (simp add: step_process_def response_zero_frames_json_def split_env_data_def lift_def
        py_truediv_def float_int_bound_pos)
qed

text \<open>
  Claim C6. When every agent entry of the response has a name, a state and a reward,
  \<open>split_env_data\<close> returns one state dictionary and one reward dictionary per entry, in
  the order of the response and with the names as they are; and whenever \<open>step\<close> returns
  for this response, the names of the states list and of the rewards list it returns are
  the names of the response, in the same order.
\<close>

theorem agent_order_preserved:
  assumes wf: "\<forall>d\<in>set ds. getitem d ''name'' = Returns (name_of d)
                    \<and> getitem d ''state'' = Returns (state_of d)
                    \<and> getitem d ''reward'' = Returns (reward_of d)"
  shows "split_env_data (JList ds) =
           Returns (map (\<lambda>d. JDict [(''name'', name_of d), (''state'', state_of d)]) ds,
                    map (\<lambda>d. JDict [(''name'', name_of d), (''reward'', reward_of d)]) ds)
       \<and> (step_exchange L actions_data s = Some (Returns env_data, s')
            \<and> getitem env_data ''states_data'' = Returns (JList ds)
            \<and> step L actions_data s = Some (Returns (states_data, rewards_data, done, n_frames), s'')
          \<longrightarrow> map (\<lambda>d. getitem d ''name'') states_data = map (\<lambda>d. Returns (name_of d)) ds
            \<and> map (\<lambda>d. getitem d ''name'') rewards_data = map (\<lambda>d. Returns (name_of d)) ds)"
proof -
  have split: "split_env_data (JList ds) =
           Returns (map (\<lambda>d. JDict [(''name'', name_of d), (''state'', state_of d)]) ds,
                    map (\<lambda>d. JDict [(''name'', name_of d), (''reward'', reward_of d)]) ds)"
    using split_env_loop_char[OF wf, of "[]" "[]"] by (simp add: split_env_data_def)
  {
    assume ex: "step_exchange L actions_data s = Some (Returns env_data, s')"
      and sd: "getitem env_data ''states_data'' = Returns (JList ds)"
      and st: "step L actions_data s = Some (Returns (states_data, rewards_data, done, n_frames), s'')"
    from st have "step_process L env_data s' =
        Some (Returns (states_data, rewards_data, done, n_frames), s'')"
      unfolding step_from_exchange[OF ex] .
    then have "states_data = map (\<lambda>d. JDict [(''name'', name_of d), (''state'', state_of d)]) ds
       \<and> (\<exists>nf. scale_rewards L (map (\<lambda>d. JDict [(''name'', name_of d), (''reward'', reward_of d)]) ds) nf
            = Returns rewards_data)"
      unfolding step_process_def
      by (auto simp: sd split and_then_lift_eq_Returns returns_def)
    then have "map (\<lambda>d. getitem d ''name'') states_data = map (\<lambda>d. Returns (name_of d)) ds
            \<and> map (\<lambda>d. getitem d ''name'') rewards_data = map (\<lambda>d. Returns (name_of d)) ds"
      using scale_rewards_names by auto
  }
  with split show ?thesis by blast
qed

text \<open>Three agents \<^verbatim>\<open>A\<close>, \<^verbatim>\<open>B\<close>, \<^verbatim>\<open>C\<close>.\<close>

theorem agent_order_preserved_witness:
  "split_env_data (JList
      [JDict [(''name'', JStr ''A''), (''state'', JInt 1), (''reward'', JInt 10)],
       JDict [(''name'', JStr ''B''), (''state'', JInt 2), (''reward'', JInt 20)],
       JDict [(''name'', JStr ''C''), (''state'', JInt 3), (''reward'', JInt 30)]] :: rat json) =
     Returns ([JDict [(''name'', JStr ''A''), (''state'', JInt 1)],
               JDict [(''name'', JStr ''B''), (''state'', JInt 2)],
               JDict [(''name'', JStr ''C''), (''state'', JInt 3)]],
              [JDict [(''name'', JStr ''A''), (''reward'', JInt 10)],
               JDict [(''name'', JStr ''B''), (''reward'', JInt 20)],
               JDict [(''name'', JStr ''C''), (''reward'', JInt 30)]])"
proof -
  let ?ds = "[JDict [(''name'', JStr ''A''), (''state'', JInt 1), (''reward'', JInt 10)],
       JDict [(''name'', JStr ''B''), (''state'', JInt 2), (''reward'', JInt 20)],
       JDict [(''name'', JStr ''C''), (''state'', JInt 3), (''reward'', JInt 30)]] :: rat json list"
  let ?name_of = "\<lambda>d::rat json. case getitem d ''name'' of Returns v \<Rightarrow> v | Raises e \<Rightarrow> JNull"
  let ?state_of = "\<lambda>d::rat json. case getitem d ''state'' of Returns v \<Rightarrow> v | Raises e \<Rightarrow> JNull"
  let ?reward_of = "\<lambda>d::rat json. case getitem d ''reward'' of Returns v \<Rightarrow> v | Raises e \<Rightarrow> JNull"
  have wf: "\<forall>d\<in>set ?ds. getitem d ''name'' = Returns (?name_of d)
                    \<and> getitem d ''state'' = Returns (?state_of d)
                    \<and> getitem d ''reward'' = Returns (?reward_of d)"
    by simp
  from agent_order_preserved[OF wf, THEN conjunct1]
  show ?thesis by simp
qed


subsection \<open>Closing the connection; the receive loop\<close>

text \<open>
  Claim C8, as the code has it. With the socket handle absent, \<open>end_connection\<close> leaves the
  session state as it is, but it is not a no-op without error: \<^verbatim>\<open>self.socket.close()\<close> raises
  \<^verbatim>\<open>AttributeError\<close>.
\<close>

theorem end_connection_closed_raises:
  assumes "socket s = None"
  shows "end_connection s = Some (Raises AttributeError, s)"
  using assms by (simp add: end_connection_def)

text \<open>A newly constructed session has no socket.\<close>

theorem end_connection_closed_raises_witness:
  "socket (new_session [] plane_action) = None
   \<and> end_connection (new_session [] plane_action) = Some (Raises AttributeError, new_session [] plane_action)"
  using end_connection_closed_raises[of "new_session [] plane_action"]
  by (simp add: new_session_def new_object_def)

text \<open>
  C8 as stated fails: on a newly constructed session, whose connection is closed,
  \<open>end_connection\<close> raises.
\<close>

theorem end_connection_not_safe_when_closed:
  "map_option fst (end_connection (new_session [] plane_action)) = Some (Raises AttributeError)"
  by (simp add: end_connection_def new_session_def new_object_def)

lemma wait_and_receive_loop_small_chunks:
  assumes "\<forall>c\<in>set sock. length c \<le> 4"
  shows "wait_and_receive_loop total_data sock = None"
proof -
  have "wait_and_receive_loop t k = Some r \<Longrightarrow> \<not> (\<forall>c\<in>set k. length c \<le> 4)" for t k r
  proof (induction t k r rule: wait_and_receive_loop.raw_induct[rotated 1, consumes 1])
    case (1 loop t k r)
    show ?case
    proof (cases k)
      case Nil
      with 1 show ?thesis by (cases r) (fastforce split: if_splits)
    next
      case (Cons c cs)
      with 1 show ?thesis by (cases r) (fastforce split: if_splits)
    qed
  qed
  with assms show ?thesis by (cases "wait_and_receive_loop total_data sock") auto
qed


subsection \<open>The text of the requests\<close>

lemma show_nat_ascii: "list_all (\<lambda>c. of_char c < (128::nat)) (show_nat n)"
proof (induction n rule: show_nat.induct)
  case (1 n)
  have d: "of_char (''0123456789'' ! k) < (128::nat)" if "k < 10" for k
  proof -
    from that have "k \<in> {0,1,2,3,4,5,6,7,8,9}" by auto
    then show ?thesis by auto
  qed
  show ?case
  proof (cases "n < 10")
    case True
    then show ?thesis by (subst show_nat.simps) (simp add: d)
  next
    case False
    then show ?thesis using 1 by (subst show_nat.simps) (simp add: d)
  qed
qed

lemma show_int_ascii: "list_all (\<lambda>c. of_char c < (128::nat)) (show_int i)"
  by (simp add: show_int_def show_nat_ascii)

lemma str_encode_ascii: "list_all (\<lambda>c. of_char c < (128::nat)) s \<Longrightarrow> str_encode s = s"
  by (induction s) (simp_all add: str_encode_def)

lemma str_encode_append: "str_encode (a @ b) = str_encode a @ str_encode b"
  by (simp add: str_encode_def)

lemma str_encode_Nil: "str_encode [] = []"
  by (simp add: str_encode_def)

lemma str_encode_Cons:
  "str_encode (c # s) =
     (if of_char c < (128::nat) then [c]
      else [char_of (192 + of_char c div (64::nat)), char_of (128 + of_char c mod (64::nat))])
     @ str_encode s"
  by (simp add: str_encode_def)

lemma str_encode_show_int: "str_encode (show_int i) = show_int i"
  by (rule str_encode_ascii[OF show_int_ascii])

lemmas request_eval =
  create_request_def Let_def dumps_encode_def json_dumps_def encode_basestring_ascii_def escape_char_def
  str_encode_Nil str_encode_Cons str_encode_append str_encode_show_int

lemma terminate_request:
  \<open>create_request L False True actions_data s =
     Some (Returns (''{"initialization": false, "termination": true, "render": ''
                    @ (if is_rendering s then ''true'' else ''false'') @ ''}''), s)\<close>
  by (simp add: request_eval)

lemma init_request:
  \<open>create_request L True False actions_data s =
     Some (Returns (''{"initialization": true, "seed": ''
                    @ show_int (fst (randint L (random_generator s) 0 1000000))
                    @ '', "termination": false, "render": ''
                    @ (if is_rendering s then ''true'' else ''false'') @ ''}''),
           s\<lparr>random_generator := snd (randint L (random_generator s) 0 1000000)\<rparr>)\<close>
  by (simp add: request_eval)


subsection \<open>The caller's actions\<close>

lemma plain_int_action_lookup:
  "map_of d ''action'' = Some v \<Longrightarrow>
   map_of (plain_int_action d) ''action'' = Some (case v of PNpInt i \<Rightarrow> PInt i | _ \<Rightarrow> v)"
  by (cases v) (simp_all add: plain_int_action_def update_conv')

lemma plain_int_action_idem: "plain_int_action (plain_int_action d) = plain_int_action d"
proof (cases "map_of d ''action''")
  case None
  then show ?thesis by (simp add: plain_int_action_def)
next
  case (Some v)
  then show ?thesis
    by (cases v) (simp_all add: plain_int_action_def update_conv')
qed

lemma format_actions_loop_step:
  assumes "map_of (h a) ''action'' \<noteq> None"
  shows "format_actions_loop (a # as) h = format_actions_loop as (h(a := plain_int_action (h a)))"
proof -
  from assms obtain v where v: "map_of (h a) ''action'' = Some v" by auto
  show ?thesis
    by (cases v) (simp_all add: v plain_int_action_def)
qed

lemma format_actions_loop_char:
  "\<forall>a\<in>set as. map_of (h a) ''action'' \<noteq> None \<Longrightarrow>
   format_actions_loop as h =
     (Returns (), \<lambda>a. if a \<in> set as then plain_int_action (h a) else h a)"
proof (induction as arbitrary: h)
  case Nil
  then show ?case by simp
next
  case (Cons a as)
  let ?h = "h(a := plain_int_action (h a))"
  have a: "map_of (h a) ''action'' \<noteq> None" using Cons.prems by simp
  have "\<forall>b\<in>set as. map_of (?h b) ''action'' \<noteq> None"
    using Cons.prems a by (auto simp: plain_int_action_lookup)
  from Cons.IH[OF this]
  have "format_actions_loop (a # as) h =
      (Returns (), \<lambda>b. if b \<in> set as then plain_int_action (?h b) else ?h b)"
    unfolding format_actions_loop_step[where h = h and a = a, OF a] .
  moreover have "(\<lambda>b. if b \<in> set as then plain_int_action (?h b) else ?h b) =
      (\<lambda>b. if b \<in> set (a # as) then plain_int_action (h b) else h b)"
    by (rule ext) (simp add: plain_int_action_idem)
  ultimately show ?case by (simp only:)
qed

lemma format_actions_data_char:
  assumes "\<forall>a\<in>set as. map_of (heap s a) ''action'' \<noteq> None"
  shows "format_actions_data (Some as) s =
           Some (Returns as,
                 s\<lparr>heap := \<lambda>a. if a \<in> set as then plain_int_action (heap s a) else heap s a\<rparr>)"
  by (simp add: format_actions_data_def format_actions_loop_char[OF assms])

lemma action_request_char:
  assumes "\<forall>a\<in>set as. map_of (heap s a) ''action'' \<noteq> None"
  shows "create_request L False False (Some as) s =
           dumps_encode L
             [(''initialization'', PBool False), (''termination'', PBool False),
              (''render'', PBool (is_rendering s)),
              (''actions_data'', PList (map (\<lambda>a. PDict (plain_int_action (heap s a))) as))]
             (s\<lparr>heap := \<lambda>a. if a \<in> set as then plain_int_action (heap s a) else heap s a\<rparr>)"
  by (simp add: create_request_def and_then_def format_actions_data_char[OF assms] cong: map_cong)

lemma keeps_and_then:
  "keeps field m \<Longrightarrow> (\<And>a. keeps field (f a)) \<Longrightarrow> keeps field (and_then m f)"
  unfolding keeps_def and_then_def
  by (auto split: option.splits outcome.splits prod.splits)

lemma keeps_lift: "keeps field (lift r)"
  by (simp add: keeps_def lift_def)

lemma keeps_returns: "keeps field (returns a)"
  by (simp add: keeps_def returns_def)

lemma keeps_case_prod:
  "(\<And>a b. keeps field (f a b)) \<Longrightarrow> keeps field (case p of (a, b) \<Rightarrow> f a b)"
  by (cases p) simp

lemma keeps_update: "(\<And>s. field (g s) = field s) \<Longrightarrow> keeps field (\<lambda>s. Some (r, g s))"
  by (simp add: keeps_def)

lemma keeps_heap_sendall: "keeps heap (sendall data)"
  by (auto simp: keeps_def sendall_def split: option.splits)

lemma keeps_heap_receive: "keeps heap (get_environment_state L)"
  unfolding get_environment_state_def
  by (rule keeps_and_then)
     (auto simp: keeps_def wait_and_receive_states_data_def lift_def split: option.splits sum.splits)

lemma keeps_heap_step_process: "keeps heap (step_process L env_data)"
  unfolding step_process_def
  by (intro keeps_and_then keeps_lift keeps_returns keeps_case_prod keeps_update) simp_all

lemma step_heap:
  assumes "\<forall>a\<in>set as. map_of (heap s a) ''action'' \<noteq> None"
    and "step L as s = Some (r, s')"
  shows "heap s' = (\<lambda>a. if a \<in> set as then plain_int_action (heap s a) else heap s a)"
proof -
  let ?s1 = "s\<lparr>heap := \<lambda>a. if a \<in> set as then plain_int_action (heap s a) else heap s a\<rparr>"
  let ?rest = "\<lambda>request. and_then (sendall request) (\<lambda>_.
                 and_then (get_environment_state L) (step_process L))"
  have k: "keeps heap (?rest request)" for request
    by (intro keeps_and_then keeps_heap_sendall keeps_heap_receive keeps_heap_step_process)
  have st: "step L as = and_then (create_request L False False (Some as)) ?rest"
    by (simp add: step_def step_process_def[abs_def])
  show ?thesis
  proof (cases "json_dumps L (PDict
             [(''initialization'', PBool False), (''termination'', PBool False),
              (''render'', PBool (is_rendering s)),
              (''actions_data'', PList (map (\<lambda>a. PDict (plain_int_action (heap s a))) as))])")
    case (Raises e)
    then have "create_request L False False (Some as) s = Some (Raises e, ?s1)"
      by (simp add: action_request_char[OF assms(1)] dumps_encode_def)
    with assms(2) show ?thesis by (auto simp: st and_then_def)
  next
    case (Returns body)
    then have "create_request L False False (Some as) s = Some (Returns (str_encode body), ?s1)"
      by (simp add: action_request_char[OF assms(1)] dumps_encode_def)
    with assms(2) have "?rest (str_encode body) ?s1 = Some (r, s')"
      by (simp add: st and_then_def)
    with k[of "str_encode body"] have "heap s' = heap ?s1"
      unfolding keeps_def by blast
    then show ?thesis by simp
  qed
qed

text \<open>
  Claim C10. When every entry of the caller's list has a value under \<^verbatim>\<open>"action"\<close>,
  \<open>format_actions_data\<close> returns the caller's list and leaves, in the caller's own
  dictionaries, a plain integer where the action was a NumPy integer and everything else
  as it was (\<open>plain_int_action\<close>); no entry is rejected. The request that is serialized is
  built from the dictionaries after this replacement, and whatever \<open>step\<close> does afterwards,
  the caller's dictionaries stay in that state.
\<close>

theorem step_formats_actions_in_place:
  assumes "\<forall>a\<in>set actions_data. map_of (heap s a) ''action'' \<noteq> None"
  shows "format_actions_data (Some actions_data) s =
           Some (Returns actions_data,
                 s\<lparr>heap := \<lambda>a. if a \<in> set actions_data
                                 then plain_int_action (heap s a) else heap s a\<rparr>)
       \<and> create_request L False False (Some actions_data) s =
           dumps_encode L
             [(''initialization'', PBool False), (''termination'', PBool False),
              (''render'', PBool (is_rendering s)),
              (''actions_data'',
                 PList (map (\<lambda>a. PDict (plain_int_action (heap s a))) actions_data))]
             (s\<lparr>heap := \<lambda>a. if a \<in> set actions_data
                             then plain_int_action (heap s a) else heap s a\<rparr>)
       \<and> (\<forall>r s'. step L actions_data s = Some (r, s') \<longrightarrow>
             heap s' = (\<lambda>a. if a \<in> set actions_data
                             then plain_int_action (heap s a) else heap s a))"
  using format_actions_data_char[OF assms] action_request_char[OF assms] step_heap[OF assms]
  by blast

text \<open>A NumPy integer, a float and a string as actions.\<close>

theorem step_formats_actions_in_place_witness:
  "map_option (\<lambda>(r, s'). (r, map (heap s') [0, 1, 2]))
        (format_actions_data (Some [0, 1, 2]) (ready_session [] mixed_actions)) =
      Some (Returns [0, 1, 2],
            [[(''name'', PStr ''A''), (''action'', PInt 2)],
             [(''name'', PStr ''B''), (''action'', PFloat (1/2))],
             [(''name'', PStr ''C''), (''action'', PStr ''left'')]])"
proof -
  have h: "\<forall>a\<in>set [0, 1, 2]. map_of (heap (ready_session [] mixed_actions) a) ''action'' \<noteq> None"
    by (simp add: ready_session_def new_session_def new_object_def test_world_def mixed_actions_def)
  from step_formats_actions_in_place[OF h, of test_lib, THEN conjunct1]
  show ?thesis
    by (simp add: ready_session_def new_session_def new_object_def test_world_def mixed_actions_def
        plain_int_action_def)
qed


subsection \<open>Requests are bare JSON\<close>

lemma action_request_text:
  assumes "\<forall>a\<in>set as. map_of (heap s a) ''action'' \<noteq> None
                    \<and> serializable (PDict (plain_int_action (heap s a)))"
  shows \<open>create_request L False False (Some as) s =
     Some (Returns (str_encode
             (''{"initialization": false, "termination": false, "render": ''
              @ (if is_rendering s then ''true'' else ''false'')
              @ '', "actions_data": ''
              @ dumps L (PList (map (\<lambda>a. PDict (plain_int_action (heap s a))) as)) @ ''}'')),
           s\<lparr>heap := \<lambda>a. if a \<in> set as then plain_int_action (heap s a) else heap s a\<rparr>)\<close>
proof -
  have a: "\<forall>a\<in>set as. map_of (heap s a) ''action'' \<noteq> None" using assms by blast
  have ser: "list_all (\<lambda>a. list_all (\<lambda>kv. serializable (snd kv)) (plain_int_action (heap s a))) as"
    using assms by (simp add: list_all_iff)
  show ?thesis
    unfolding action_request_char[OF a]
    using ser
    by (simp add: dumps_encode_def json_dumps_def encode_basestring_ascii_def escape_char_def
        list_all_iff comp_def)
qed

lemma terminate_not_frame:
  \<open>\<not> is_length_prefixed_frame
       (''{"initialization": false, "termination": true, "render": ''
        @ (if r then ''true'' else ''false'') @ ''}'')\<close>
  by (simp add: is_length_prefixed_frame_def be32_def)

text \<open>
  Claim C1, as the code has it. The bytes \<open>create_request\<close> returns are the UTF-8 encoding
  of the JSON text of the request dictionary and nothing else: no length prefix precedes
  them. For a termination and for an initialization request the text is given in full;
  the termination request is not a length-prefixed frame. For an action request (every
  entry with an action, and serializable once NumPy integers are replaced) the text is the
  dictionary with the caller's actions under \<^verbatim>\<open>"actions_data"\<close>.
\<close>

theorem create_request_is_bare_json:
  \<open>create_request L False True actions_data s =
     Some (Returns (''{"initialization": false, "termination": true, "render": ''
                    @ (if is_rendering s then ''true'' else ''false'') @ ''}''), s)
   \<and> \<not> is_length_prefixed_frame
       (''{"initialization": false, "termination": true, "render": ''
        @ (if is_rendering s then ''true'' else ''false'') @ ''}'')
   \<and> create_request L True False actions_data s =
     Some (Returns (''{"initialization": true, "seed": ''
                    @ show_int (fst (randint L (random_generator s) 0 1000000))
                    @ '', "termination": false, "render": ''
                    @ (if is_rendering s then ''true'' else ''false'') @ ''}''),
           s\<lparr>random_generator := snd (randint L (random_generator s) 0 1000000)\<rparr>)
   \<and> ((\<forall>a\<in>set as. map_of (heap s a) ''action'' \<noteq> None
                    \<and> serializable (PDict (plain_int_action (heap s a)))) \<longrightarrow>
      create_request L False False (Some as) s =
        Some (Returns (str_encode
                (''{"initialization": false, "termination": false, "render": ''
                 @ (if is_rendering s then ''true'' else ''false'')
                 @ '', "actions_data": ''
                 @ dumps L (PList (map (\<lambda>a. PDict (plain_int_action (heap s a))) as)) @ ''}'')),
              s\<lparr>heap := \<lambda>a. if a \<in> set as then plain_int_action (heap s a) else heap s a\<rparr>))\<close>
  using terminate_request[of L actions_data s] terminate_not_frame[of "is_rendering s"]
    init_request[of L actions_data s] action_request_text[of as s L]
  by blast


text \<open>The action request for \<^verbatim>\<open>Plane\<close>, and the first initialization request for seed 42.\<close>

theorem create_request_is_bare_json_witness:
  \<open>map_option fst (create_request test_lib False False (Some [0]) (ready_session [] plane_action)) =
     Some (Returns ''{"initialization": false, "termination": false, "render": true, "actions_data": [{"name": "Plane", "action": 2}]}'')
   \<and> map_option fst (create_request test_lib True False None (new_session [] plane_action)) =
     Some (Returns ''{"initialization": true, "seed": 496027, "termination": false, "render": true}'')\<close>
proof -
  let ?s = "ready_session [] plane_action"
  have h: "\<forall>a\<in>set [0]. map_of (heap ?s a) ''action'' \<noteq> None
                    \<and> serializable (PDict (plain_int_action (heap ?s a)))"
    by (simp add: ready_session_def new_session_def new_object_def test_world_def plane_action_def
        plain_int_action_def)
  note inst = create_request_is_bare_json[of test_lib None ?s "[0]"]
  from inst h have \<open>create_request test_lib False False (Some [0]) ?s =
        Some (Returns (str_encode
                (''{"initialization": false, "termination": false, "render": ''
                 @ (if is_rendering ?s then ''true'' else ''false'')
                 @ '', "actions_data": ''
                 @ dumps test_lib (PList (map (\<lambda>a. PDict (plain_int_action (heap ?s a))) [0])) @ ''}'')),
              ?s\<lparr>heap := \<lambda>a. if a \<in> set [0] then plain_int_action (heap ?s a) else heap ?s a\<rparr>)\<close>
    by blast
  then have a: \<open>map_option fst (create_request test_lib False False (Some [0]) ?s) =
     Some (Returns ''{"initialization": false, "termination": false, "render": true, "actions_data": [{"name": "Plane", "action": 2}]}'')\<close>
    by (simp add: ready_session_def new_session_def new_object_def test_world_def plane_action_def
        plain_int_action_def encode_basestring_ascii_def escape_char_def show_int_def
        show_nat.simps str_encode_Nil str_encode_Cons)
  have b: \<open>map_option fst (create_request test_lib True False None (new_session [] plane_action)) =
     Some (Returns ''{"initialization": true, "seed": 496027, "termination": false, "render": true}'')\<close>
    using create_request_is_bare_json[of test_lib None "new_session [] plane_action" "[]"]
    by (simp add: new_session_def new_object_def test_world_def test_lib_def lcg_def show_int_def
        show_nat.simps)
  from a b show ?thesis by blast
qed

text \<open>
  C1 as stated fails: the termination request is the bare JSON text of 62 bytes; read as
  a frame, its first four bytes \<^verbatim>\<open>{"in\<close> would announce 2065852782 bytes.
\<close>

theorem terminate_request_is_not_a_frame:
  \<open>map_option fst (create_request test_lib False True None (ready_session [] plane_action)) =
     Some (Returns ''{"initialization": false, "termination": true, "render": true}'')
   \<and> \<not> is_length_prefixed_frame ''{"initialization": false, "termination": true, "render": true}''
   \<and> be32 (take 4 ''{"initialization": false, "termination": true, "render": true}'') = 2065852782
   \<and> length ''{"initialization": false, "termination": true, "render": true}'' = 62\<close>
  by (simp add: request_eval is_length_prefixed_frame_def be32_def
      ready_session_def new_session_def new_object_def test_world_def)


subsection \<open>A change of the render mode\<close>

lemma first_reset:
  "reset test_lib True (new_session [response_ok, response_ok] plane_action) =
     Some (Returns (JList [JDict [(''name'', JStr ''Plane''), (''state'', JList [JInt 1, JInt 2]),
                             (''reward'', JFloat 8),
                             (''metrics'', JDict [(''region'', JInt 3), (''misc'', JInt 1)])]]),
           session_after_reset)"
proof -
  have loop: "wait_and_receive_loop [] [response_ok, response_ok] = Some (response_ok, [response_ok])"
    by (subst wait_and_receive_loop.simps) (simp add: response_lengths)
  show ?thesis
    by (simp add: reset_def change_render_type_if_needed_def launch_simulation_if_needed_def
        initialize_socket_def wait_for_connection_def and_then_def init_request
        sendall_def get_environment_state_def wait_and_receive_states_data_def lift_def
        returns_def loop new_session_def new_object_def test_world_def
        session_after_reset_def ready_session_def
        test_lib_def lcg_def show_int_def show_nat.simps
        ascii_response_ok format_states_data_def response_ok_json_def)
qed

lemma second_reset:
  "reset test_lib False session_after_reset = Some (Raises OSError, session_after_reset)"
  by (simp add: reset_def change_render_type_if_needed_def wait_for_connection_def and_then_def
      session_after_reset_def ready_session_def new_session_def new_object_def test_world_def)

text \<open>
  The same for every session that is launched and whose socket is bound, which is every
  session a \<open>reset\<close> has connected: a \<open>reset\<close> with the other render mode ends in the second
  \<^verbatim>\<open>bind\<close> on the socket, with the state as it was.
\<close>

lemma render_change_rebinds:
  assumes "render \<noteq> is_rendering s" "is_godot_launched s" "socket s = Some k"
    "k \<in> set (bound_sockets s)"
  shows "reset L render s = Some (Raises OSError, s)"
  using assms
  by (simp add: reset_def change_render_type_if_needed_def wait_for_connection_def and_then_def)


text \<open>
  Claim C7 at the session it is about. \<^verbatim>\<open>reset(render=True)\<close> on a new session launches
  the process and leaves the session connected. \<^verbatim>\<open>reset(render=False)\<close> on that session
  enters the teardown branch of \<^verbatim>\<open>_change_render_type_if_needed\<close>, whose unguarded
  \<^verbatim>\<open>_wait_for_connection\<close> binds the socket that is already bound: the call ends with
  \<^verbatim>\<open>OSError\<close> and the state as it was. No termination request is sent, nothing is torn
  down and nothing is launched again.
\<close>

theorem render_change_on_connected_session:
  "reset test_lib True (new_session [response_ok, response_ok] plane_action) =
     Some (Returns (JList [JDict [(''name'', JStr ''Plane''), (''state'', JList [JInt 1, JInt 2]),
                             (''reward'', JFloat 8),
                             (''metrics'', JDict [(''region'', JInt 3), (''misc'', JInt 1)])]]),
           session_after_reset)
   \<and> reset test_lib False session_after_reset = Some (Raises OSError, session_after_reset)"
  using first_reset second_reset by simp


subsection \<open>Receiving in chunks\<close>

lemma one_byte_chunks: "\<forall>c\<in>set (map (\<lambda>b. [b]) payload). length c \<le> 4"
  by simp

lemma receive_whole:
  "map_option fst (get_environment_state test_lib (ready_session [response_ok] plane_action)) =
     Some (Returns response_ok_json)"
  by (simp add: exchange_eval response_ok_json_def)

lemma receive_bytewise:
  "get_environment_state test_lib
     (ready_session (map (\<lambda>b. [b]) response_ok) plane_action) = None"
  by (simp add: get_environment_state_def wait_and_receive_states_data_def and_then_def
      ready_session_def new_session_def new_object_def test_world_def
      wait_and_receive_loop_small_chunks[OF one_byte_chunks])

lemma receive_two_parts_loop:
  "wait_and_receive_loop [] [take 50 response_ok, drop 50 response_ok] =
     Some (take 50 response_ok, [drop 50 response_ok])"
  by (subst wait_and_receive_loop.simps) (simp add: response_lengths)

lemma take_50_not_response:
  "take 50 response_ok \<noteq> response_ok" "take 50 response_ok \<noteq> response_no_metrics"
  "take 50 response_ok \<noteq> response_zero_frames"
  by (simp_all add: response_ok_def response_no_metrics_def response_zero_frames_def)

lemma receive_two_parts:
  "map_option fst (get_environment_state test_lib
     (ready_session [take 50 response_ok, drop 50 response_ok] plane_action)) =
     Some (Raises JSONDecodeError)"
proof -
  have ascii: "list_all (\<lambda>c. of_char c < (128::nat)) (take 50 response_ok)"
    by (simp add: response_ok_def)
  show ?thesis
    by (simp add: get_environment_state_def wait_and_receive_states_data_def and_then_def lift_def
        ready_session_def new_session_def new_object_def test_world_def receive_two_parts_loop
        test_lib_def ascii take_50_not_response response_lengths format_states_data_def)
qed
text \<open>
  The later loop of \<^verbatim>\<open>build/lib\<close> does not depend on the chunks. When the payload parses
  and none of its proper prefixes does, the loop returns the payload however the
  transport cuts it, with nothing left on the socket.
\<close>

lemma later_loop_chunk_independent:
  assumes ok: "parses L payload"
    and pre: "\<forall>p. p \<noteq> payload \<and> (\<exists>q. p @ q = payload) \<longrightarrow> \<not> parses L p"
  shows "[] \<notin> set sock \<Longrightarrow> total_data @ concat sock = payload \<Longrightarrow>
         wait_and_receive_loop_later L total_data sock = Some (payload, [])"
proof (induction "length (concat sock)" arbitrary: sock total_data rule: less_induct)
  case less
  show ?case
  proof (cases sock)
    case Nil
    with less.prems ok show ?thesis
      by (subst wait_and_receive_loop_later.simps) simp
  next
    case (Cons c cs)
    obtain packet sock' where r: "recv sock 4096 = (packet, sock')"
      by (cases "recv sock 4096")
    have p: "packet \<noteq> []" "packet @ concat sock' = concat sock" "[] \<notin> set sock'"
      using less.prems(1) Cons r by (auto split: if_splits)
    have tot: "(total_data @ packet) @ concat sock' = payload"
      using p(2) less.prems(2) by simp
    show ?thesis
    proof (cases "concat sock' = []")
      case True
      then have "sock' = []" using p(3) by (cases sock') auto
      moreover have "total_data @ packet = payload" using tot True by simp
      ultimately show ?thesis
        using r ok by (subst wait_and_receive_loop_later.simps) simp
    next
      case False
      then have "total_data @ packet \<noteq> payload" using tot by auto
      with pre tot have np: "\<not> parses L (total_data @ packet)" by blast
      have "length (concat sock') < length (concat sock)"
        using p(1) p(2) by (metis length_append length_greater_0_conv less_add_same_cancel2)
      from less.hyps[OF this p(3) tot] show ?thesis
        using r np by (subst wait_and_receive_loop_later.simps) simp
    qed
  qed
qed


text \<open>
  Claim C2 at three ways of delivering the same response. In one chunk, the receive and
  decode operation returns the decoded response. One byte at a time, every block is
  dropped by the test \<^verbatim>\<open>4 < len(data_received)\<close> and the loop never returns. In two parts
  of 50 and 85 bytes, the loop stops after the first part, and decoding it fails.
\<close>

theorem receive_depends_on_chunking:
  "concat (map (\<lambda>b. [b]) response_ok) = response_ok
   \<and> concat [take 50 response_ok, drop 50 response_ok] = response_ok
   \<and> map_option fst (get_environment_state test_lib (ready_session [response_ok] plane_action)) =
       Some (Returns response_ok_json)
   \<and> get_environment_state test_lib
       (ready_session (map (\<lambda>b. [b]) response_ok) plane_action) = None
   \<and> map_option fst (get_environment_state test_lib
       (ready_session [take 50 response_ok, drop 50 response_ok] plane_action)) =
       Some (Raises JSONDecodeError)"
proof -
  have "concat (map (\<lambda>b. [b]) xs) = xs" for xs :: bytes
    by (induction xs) simp_all
  then show ?thesis
    using receive_whole receive_bytewise receive_two_parts by simp
qed


subsection \<open>Seeds of the initialization requests\<close>

lemma and_then_Returns_iff:
  "and_then m f s = Some (Returns r, t) \<longleftrightarrow>
     (\<exists>a s1. m s = Some (Returns a, s1) \<and> f a s1 = Some (Returns r, t))"
  by (auto simp: and_then_def split: option.splits outcome.splits prod.splits)

lemma keepsD: "keeps field m \<Longrightarrow> m s = Some (r, s') \<Longrightarrow> field s' = field s"
  by (auto simp: keeps_def)

lemma keeps_if: "keeps field m \<Longrightarrow> keeps field n \<Longrightarrow> keeps field (\<lambda>s. if c s then m s else n s)"
  by (auto simp: keeps_def)

lemma keeps_rng_sockets:
  "keeps random_generator initialize_socket" "keeps random_generator wait_for_connection"
  "keeps random_generator end_connection" "keeps random_generator (sendall data)"
  "keeps random_generator process_wait" "keeps random_generator launch_simulation_if_needed"
  by (auto simp: keeps_def initialize_socket_def wait_for_connection_def end_connection_def
      sendall_def process_wait_def launch_simulation_if_needed_def Let_def
      split: option.splits if_splits)

lemma keeps_rng_receive: "keeps random_generator (get_environment_state L)"
  unfolding get_environment_state_def
  by (rule keeps_and_then)
     (auto simp: keeps_def wait_and_receive_states_data_def lift_def split: option.splits sum.splits)

lemma keeps_rng_request: "keeps random_generator (create_request L False t ad)"
  by (auto simp: keeps_def create_request_def Let_def and_then_def format_actions_data_def
      dumps_encode_def split: option.splits outcome.splits prod.splits if_splits)

lemma keeps_rng_step_process: "keeps random_generator (step_process L env_data)"
  unfolding step_process_def
  by (intro keeps_and_then keeps_lift keeps_returns keeps_case_prod keeps_update) simp_all

lemma keeps_rng_step: "keeps random_generator (step L a)"
  unfolding step_halves step_exchange_def
  by (intro keeps_and_then keeps_rng_request keeps_rng_sockets keeps_rng_receive
      keeps_rng_step_process)

lemma keeps_rng_close: "keeps random_generator (close L)"
  unfolding close_def
  by (intro keeps_and_then keeps_rng_request keeps_rng_sockets keeps_update) simp

lemma keeps_rng_change_render:
  "keeps random_generator (change_render_type_if_needed L render)"
  unfolding change_render_type_if_needed_def
  by (intro keeps_and_then keeps_if keeps_rng_sockets keeps_rng_close keeps_update) simp_all


lemma keeps_rendering_sockets:
  "keeps is_rendering initialize_socket" "keeps is_rendering wait_for_connection"
  "keeps is_rendering launch_simulation_if_needed"
  by (auto simp: keeps_def initialize_socket_def wait_for_connection_def
      launch_simulation_if_needed_def Let_def split: option.splits if_splits)

lemma change_render_sets_mode:
  "change_render_type_if_needed L render s = Some (Returns u, s1) \<Longrightarrow> is_rendering s1 = render"
  by (auto simp: change_render_type_if_needed_def and_then_Returns_iff)

lemma keeps_trace_receive: "keeps trace (get_environment_state L)"
  unfolding get_environment_state_def
  by (rule keeps_and_then)
     (auto simp: keeps_def wait_and_receive_states_data_def lift_def split: option.splits sum.splits)

lemma reset_draws_once:
  assumes "reset L render s = Some (Returns x, s')"
  shows \<open>random_generator s' = snd (randint L (random_generator s) 0 1000000)
       \<and> (\<exists>c. last (trace s') =
              Sent c (''{"initialization": true, "seed": ''
                      @ show_int (fst (randint L (random_generator s) 0 1000000))
                      @ '', "termination": false, "render": ''
                      @ (if render then ''true'' else ''false'') @ ''}''))\<close>
proof -
  let ?sockets = "\<lambda>s. if socket s = None
                    then and_then initialize_socket (\<lambda>_. wait_for_connection) s
                    else Some (Returns (), s)"
  let ?tail = "\<lambda>first_request. and_then (get_environment_state L) (\<lambda>env_data.
     and_then (lift (getitem env_data ''states_data'')) (\<lambda>states_data.
     and_then (\<lambda>s. Some (Returns (), s\<lparr>metrics_regions := [], metrics_misc := []\<rparr>)) (\<lambda>_.
     returns states_data)))"
  from assms obtain u1 s1 u2 s2 u3 s3 req s4 u5 s5 where
    a: "change_render_type_if_needed L render s = Some (Returns u1, s1)"
    and b: "launch_simulation_if_needed s1 = Some (Returns u2, s2)"
    and c: "?sockets s2 = Some (Returns u3, s3)"
    and d: "create_request L True False None s3 = Some (Returns req, s4)"
    and e: "sendall req s4 = Some (Returns u5, s5)"
    and f: "?tail req s5 = Some (Returns x, s')"
    unfolding reset_def and_then_Returns_iff by blast
  have ks: "keeps random_generator ?sockets" "keeps is_rendering ?sockets"
    by (intro keeps_if keeps_and_then keeps_rng_sockets keeps_rendering_sockets keeps_update; simp)+
  have g3: "random_generator s3 = random_generator s"
    using keepsD[OF keeps_rng_change_render a] keepsD[OF keeps_rng_sockets(6) b]
      keepsD[OF ks(1) c] by simp
  have r3: "is_rendering s3 = render"
    using change_render_sets_mode[OF a] keepsD[OF keeps_rendering_sockets(3) b]
      keepsD[OF ks(2) c] by simp
  from d have req: \<open>req = ''{"initialization": true, "seed": ''
                      @ show_int (fst (randint L (random_generator s) 0 1000000))
                      @ '', "termination": false, "render": ''
                      @ (if render then ''true'' else ''false'') @ ''}''\<close>
    and s4: "s4 = s3\<lparr>random_generator := snd (randint L (random_generator s) 0 1000000)\<rparr>"
    unfolding init_request g3 r3 by simp_all
  from e obtain c where s5: "s5 = s4\<lparr>trace := trace s4 @ [Sent c req]\<rparr>"
    by (auto simp: sendall_def split: option.splits)
  have kt: "keeps trace (?tail req)" "keeps random_generator (?tail req)"
    by (intro keeps_and_then keeps_trace_receive keeps_rng_receive keeps_lift keeps_returns
        keeps_update; simp)+
  have "trace s' = trace s5" "random_generator s' = random_generator s5"
    using keepsD[OF kt(1) f] keepsD[OF kt(2) f] by simp_all
  then show ?thesis
    unfolding s5 s4 req by auto
qed

lemma length_draws: "length (draws L g k) = k"
  by (induction k arbitrary: g) simp_all

lemma draws_in_range:
  assumes "\<forall>g. 0 \<le> fst (randint L g 0 1000000) \<and> fst (randint L g 0 1000000) < 1000000"
  shows "\<forall>v\<in>set (draws L g k). 0 \<le> v \<and> v < 1000000"
  using assms by (induction k arbitrary: g) auto

lemma draws_repeat:
  assumes "\<forall>g. 0 \<le> fst (randint L g 0 1000000) \<and> fst (randint L g 0 1000000) < 1000000"
    and "1000000 < k"
  shows "\<not> distinct (draws L g k)"
proof
  assume d: "distinct (draws L g k)"
  have "set (draws L g k) \<subseteq> {0..<1000000}"
    using draws_in_range[OF assms(1), of g k] by auto
  then have "card (set (draws L g k)) \<le> card {0..<1000000::int}"
    by (intro card_mono) simp_all
  also have "card {0..<1000000::int} = 1000000" by simp
  finally have "card (set (draws L g k)) \<le> 1000000" .
  moreover have "card (set (draws L g k)) = k"
    using d by (simp add: distinct_card length_draws)
  ultimately show False using assms(2) by simp
qed

lemma init_requests_char:
  \<open>init_requests L k s =
     map (\<lambda>v. ''{"initialization": true, "seed": '' @ show_int v
               @ '', "termination": false, "render": ''
               @ (if is_rendering s then ''true'' else ''false'') @ ''}'')
         (draws L (random_generator s) k)\<close>
  by (induction k arbitrary: s) (simp_all add: init_request)

lemma np_RandomState_char:
  "np_RandomState L sd =
     (if 0 \<le> sd \<and> sd < 4294967296 then Returns (RandomState L sd) else Raises ValueError)"
  by (simp add: np_RandomState_def)

lemma init_char:
  "init L w h p gp ep sd =
     (if 0 \<le> sd \<and> sd < 4294967296
      then Returns (new_object w h p gp ep sd (RandomState L sd)) else Raises ValueError)"
  by (simp add: init_def np_RandomState_char)

lemma set_seed_char:
  "set_seed L sd s =
     (if 0 \<le> sd \<and> sd < 4294967296
      then Some (Returns (), s\<lparr>seed := sd, random_generator := RandomState L sd\<rparr>)
      else Some (Raises ValueError, s\<lparr>seed := sd\<rparr>))"
  by (simp add: set_seed_def np_RandomState_char)

lemma init_new_session:
  "init test_lib (test_world chunks h) ''127.0.0.1'' 4242 ''godot'' ''env.pck'' 42
     = Returns (new_session chunks h)"
  by (simp add: init_char new_session_def)

lemma init_requests_deterministic:
  assumes "init L w1 h1 p1 gp1 ep1 sd = Returns s1" "init L w2 h2 p2 gp2 ep2 sd = Returns s2"
  shows "init_requests L k s1 = init_requests L k s2"
    and "seed s1 = sd" and "random_generator s1 = RandomState L sd"
  using assms by (auto simp: init_requests_char init_char new_object_def split: if_splits)

lemma test_lib_contract:
  "\<forall>g low high. low < high \<longrightarrow>
     low \<le> fst (randint test_lib g low high) \<and> fst (randint test_lib g low high) < high"
proof (intro allI impI)
  fix g :: nat and low high :: int
  assume lt: "low < high"
  then have "0 < nat (high - low)" by simp
  then have "lcg g mod nat (high - low) < nat (high - low)" by (rule mod_less_divisor)
  then have "int (lcg g mod nat (high - low)) < high - low" using lt by linarith
  then show "low \<le> fst (randint test_lib g low high) \<and> fst (randint test_lib g low high) < high"
    by (simp add: test_lib_def)
qed

text \<open>
  Claim C9, as the code has it, under NumPy's contract that a draw of \<^verbatim>\<open>randint\<close> lies in
  the half-open range. The initialization requests of successive calls carry the
  successive draws of \<^verbatim>\<open>randint(0, 1e6)\<close> from the session's generator, and every attached
  seed is in \<open>[0, 10^6)\<close>. For a seed in \<open>[0, 2^32)\<close>, \<open>init\<close> returns a session, and \<open>set_seed\<close>
  returns, with that seed and the generator seeded with it; for any other integer both
  raise \<^verbatim>\<open>ValueError\<close>, \<open>set_seed\<close> with the seed stored and the generator as it was. Two
  sessions that \<open>init\<close> returns for equal seeds produce the same requests. The default seed
  of the constructor is in \<open>[0, 10^5)\<close>, and \<open>init\<close> returns a session for it. A \<open>reset\<close> that
  returns has drawn exactly once and has sent the request with that draw last; \<open>step\<close> and
  \<open>close\<close> leave the generator alone. More than \<open>10^6\<close> successive draws are never all
  different.
\<close>

theorem init_seeds_are_deterministic_draws:
  assumes "\<forall>g low high. low < high \<longrightarrow>
     low \<le> fst (randint L g low high) \<and> fst (randint L g low high) < high"
  shows \<open>init_requests L k s =
           map (\<lambda>v. ''{"initialization": true, "seed": '' @ show_int v
                     @ '', "termination": false, "render": ''
                     @ (if is_rendering s then ''true'' else ''false'') @ ''}'')
               (draws L (random_generator s) k)
       \<and> (\<forall>v\<in>set (draws L (random_generator s) k). 0 \<le> v \<and> v < 1000000)
       \<and> (0 \<le> sd \<and> sd < 2 ^ 32 \<longrightarrow>
             init L w1 h1 p1 gp1 ep1 sd =
               Returns (new_object w1 h1 p1 gp1 ep1 sd (RandomState L sd))
           \<and> set_seed L sd s =
               Some (Returns (), s\<lparr>seed := sd, random_generator := RandomState L sd\<rparr>))
       \<and> (\<not> (0 \<le> sd \<and> sd < 2 ^ 32) \<longrightarrow>
             init L w1 h1 p1 gp1 ep1 sd = Raises ValueError
           \<and> set_seed L sd s = Some (Raises ValueError, s\<lparr>seed := sd\<rparr>))
       \<and> (init L w1 h1 p1 gp1 ep1 sd = Returns s1 \<and> init L w2 h2 p2 gp2 ep2 sd = Returns s2 \<longrightarrow>
             seed s1 = sd \<and> random_generator s1 = RandomState L sd
           \<and> init_requests L k s1 = init_requests L k s2)
       \<and> 0 \<le> default_seed L g0 \<and> default_seed L g0 < 100000
       \<and> init L w1 h1 p1 gp1 ep1 (default_seed L g0) =
           Returns (new_object w1 h1 p1 gp1 ep1 (default_seed L g0)
                      (RandomState L (default_seed L g0)))
       \<and> (\<forall>render x s'. reset L render s = Some (Returns x, s') \<longrightarrow>
             random_generator s' = snd (randint L (random_generator s) 0 1000000)
             \<and> (\<exists>c. last (trace s') =
                   Sent c (''{"initialization": true, "seed": ''
                           @ show_int (fst (randint L (random_generator s) 0 1000000))
                           @ '', "termination": false, "render": ''
                           @ (if render then ''true'' else ''false'') @ ''}'')))
       \<and> (\<forall>actions_data r s'. step L actions_data s = Some (r, s') \<longrightarrow>
             random_generator s' = random_generator s)
       \<and> (\<forall>r s'. close L s = Some (r, s') \<longrightarrow> random_generator s' = random_generator s)
       \<and> (1000000 < k \<longrightarrow> \<not> distinct (draws L (random_generator s) k))\<close>
proof -
  have contract: "\<forall>g. 0 \<le> fst (randint L g 0 1000000) \<and> fst (randint L g 0 1000000) < 1000000"
    using assms by simp
  have dflt: "0 \<le> default_seed L g0 \<and> default_seed L g0 < 100000"
    using assms by (simp add: default_seed_def)
  have c1: \<open>init_requests L k s =
           map (\<lambda>v. ''{"initialization": true, "seed": '' @ show_int v
                     @ '', "termination": false, "render": ''
                     @ (if is_rendering s then ''true'' else ''false'') @ ''}'')
               (draws L (random_generator s) k)\<close>
    by (rule init_requests_char)
  have c2: "\<forall>v\<in>set (draws L (random_generator s) k). 0 \<le> v \<and> v < 1000000"
    by (rule draws_in_range[OF contract])
  have c3: "0 \<le> sd \<and> sd < 2 ^ 32 \<longrightarrow>
             init L w1 h1 p1 gp1 ep1 sd =
               Returns (new_object w1 h1 p1 gp1 ep1 sd (RandomState L sd))
           \<and> set_seed L sd s =
               Some (Returns (), s\<lparr>seed := sd, random_generator := RandomState L sd\<rparr>)"
    by (simp add: init_char set_seed_char)
  have c4: "\<not> (0 \<le> sd \<and> sd < 2 ^ 32) \<longrightarrow>
             init L w1 h1 p1 gp1 ep1 sd = Raises ValueError
           \<and> set_seed L sd s = Some (Raises ValueError, s\<lparr>seed := sd\<rparr>)"
    by (simp add: init_char set_seed_char)
  have c5: "init L w1 h1 p1 gp1 ep1 sd = Returns s1 \<and> init L w2 h2 p2 gp2 ep2 sd = Returns s2 \<longrightarrow>
             seed s1 = sd \<and> random_generator s1 = RandomState L sd
           \<and> init_requests L k s1 = init_requests L k s2"
    by (auto simp: init_requests_char init_char new_object_def split: if_splits)
  have c6: "init L w1 h1 p1 gp1 ep1 (default_seed L g0) =
           Returns (new_object w1 h1 p1 gp1 ep1 (default_seed L g0)
                      (RandomState L (default_seed L g0)))"
    using dflt by (simp add: init_char)
  have c7: \<open>\<forall>render x s'. reset L render s = Some (Returns x, s') \<longrightarrow>
             random_generator s' = snd (randint L (random_generator s) 0 1000000)
             \<and> (\<exists>c. last (trace s') =
                   Sent c (''{"initialization": true, "seed": ''
                           @ show_int (fst (randint L (random_generator s) 0 1000000))
                           @ '', "termination": false, "render": ''
                           @ (if render then ''true'' else ''false'') @ ''}''))\<close>
    using reset_draws_once[of L _ s] by simp
  have c8: "\<forall>actions_data r s'. step L actions_data s = Some (r, s') \<longrightarrow>
             random_generator s' = random_generator s"
    using keepsD[OF keeps_rng_step] by blast
  have c9: "\<forall>r s'. close L s = Some (r, s') \<longrightarrow> random_generator s' = random_generator s"
    using keepsD[OF keeps_rng_close] by blast
  have c10: "1000000 < k \<longrightarrow> \<not> distinct (draws L (random_generator s) k)"
    using draws_repeat[OF contract] by blast
  from c1 c2 c3 c4 c5 dflt c6 c7 c8 c9 c10 show ?thesis
    by (intro conjI) (elim conjE | assumption)+
qed

text \<open>
  The first two initialization requests of the session constructed with seed 42, and
  \<^verbatim>\<open>set_seed(-1)\<close> on it.
\<close>

theorem init_seeds_are_deterministic_draws_witness:
  \<open>init_requests test_lib 2 (new_session [] plane_action) =
     [''{"initialization": true, "seed": 496027, "termination": false, "render": true}'',
      ''{"initialization": true, "seed": 302264, "termination": false, "render": true}'']
   \<and> draws test_lib (RandomState test_lib 42) 2 = [496027, 302264]
   \<and> init test_lib (test_world [] plane_action) ''127.0.0.1'' 4242 ''godot'' ''env.pck'' 42
       = Returns (new_session [] plane_action)
   \<and> set_seed test_lib (-1) (new_session [] plane_action)
       = Some (Raises ValueError, (new_session [] plane_action)\<lparr>seed := -1\<rparr>)\<close>
proof -
  have "draws test_lib (RandomState test_lib 42) (Suc (Suc 0)) = [496027, 302264]"
    by (simp add: test_lib_def lcg_def)
  then have d: "draws test_lib (RandomState test_lib 42) 2 = [496027, 302264]"
    by (simp only: numeral_2_eq_2)
  have r: "random_generator (new_session [] plane_action) = RandomState test_lib 42"
    "is_rendering (new_session [] plane_action)"
    by (simp_all add: new_session_def new_object_def)
  note inst = init_seeds_are_deterministic_draws[OF test_lib_contract]
  have a: \<open>init_requests test_lib 2 (new_session [] plane_action) =
     [''{"initialization": true, "seed": 496027, "termination": false, "render": true}'',
      ''{"initialization": true, "seed": 302264, "termination": false, "render": true}'']\<close>
    using inst[of 2 "new_session [] plane_action", THEN conjunct1]
    by (simp add: r d show_int_def show_nat.simps)
  have b: "init test_lib (test_world [] plane_action) ''127.0.0.1'' 4242 ''godot'' ''env.pck'' 42
       = Returns (new_session [] plane_action)"
    using inst[where sd = 42 and ?w1.0 = "test_world [] plane_action" and ?h1.0 = "''127.0.0.1''"
        and ?p1.0 = 4242 and ?gp1.0 = "''godot''" and ?ep1.0 = "''env.pck''",
        THEN conjunct2, THEN conjunct2, THEN conjunct1]
    by (simp add: new_session_def)
  have c: "set_seed test_lib (-1) (new_session [] plane_action)
       = Some (Raises ValueError, (new_session [] plane_action)\<lparr>seed := -1\<rparr>)"
    using inst[where sd = "-1" and s = "new_session [] plane_action",
        THEN conjunct2, THEN conjunct2, THEN conjunct2, THEN conjunct1]
    by simp
  from a d b c show ?thesis by simp
qed

text \<open>
  C9 as stated fails: the constructor accepts the seed 123456 and \<^verbatim>\<open>set_seed\<close> the seed
  7000000, both outside \<open>[0, 10^5)\<close>, and the first 1000001 seeds a session attaches are not
  all different.
\<close>

theorem session_seed_is_any_integer:
  "init test_lib (test_world [] plane_action) ''127.0.0.1'' 4242 ''godot'' ''env.pck'' 123456
     = Returns (new_object (test_world [] plane_action) ''127.0.0.1'' 4242 ''godot'' ''env.pck''
                  123456 (RandomState test_lib 123456))
   \<and> seed (new_object (test_world [] plane_action) ''127.0.0.1'' 4242 ''godot'' ''env.pck''
                  123456 (RandomState test_lib 123456)) = 123456
   \<and> \<not> (123456 < (100000::int))
   \<and> map_option (\<lambda>(r, s). (r, seed s)) (set_seed test_lib 7000000 (new_session [] plane_action))
     = Some (Returns (), 7000000)
   \<and> \<not> distinct (draws test_lib (RandomState test_lib 42) 1000001)"
proof -
  have "\<forall>g. 0 \<le> fst (randint test_lib g 0 1000000) \<and> fst (randint test_lib g 0 1000000) < 1000000"
    using test_lib_contract by simp
  from draws_repeat[OF this, of 1000001 "RandomState test_lib 42"]
  show ?thesis
    by (simp add: init_char set_seed_char new_object_def)
qed

end
